theory Spec2Isabelle
  imports Main "HOL-Library.Multiset" "HOL-Library.Word"
begin

section \<open>The Btrfs collector of node\_exporter (collector/btrfs\_linux.go)\<close>

text \<open>
  The collector reads one \<open>btrfs.Stats\<close> value per filesystem from the statistics
  source, turns it into a list of \<open>btrfsMetric\<close> values and sends one constant gauge
  metric per entry on the output channel. The functions below follow the Go functions
  of the file one by one and keep their names.
\<close>

subsection \<open>Values\<close>

text \<open>
  A metric value is a Go \<open>float64\<close>. The collector obtains one either by the
  conversion \<open>float64(n)\<close> of an integer statistic or by copying the \<open>Ratio\<close> field,
  which is a \<open>float64\<close> already. A \<open>float64\<close> that is the result of a conversion is
  held as the integer it equals; a \<open>float64\<close> read from the outside is given by its 64
  bits. Equal terms stand for equal floats; the two forms may stand for the same float,
  and no statement below rests on two values being different.
\<close>

datatype float64 = Float64Int int | Float64frombits "64 word"

text \<open>
  The conversion of an integer rounds to the nearest number with 53 significant bits,
  a tie going to the one whose last significant bit is 0. \<open>bitLen m\<close> is the number of
  bits of \<open>m\<close>; \<open>round53 m\<close> drops the \<open>e\<close> bits below the 53 leading ones and rounds on
  the part dropped. The statistics are machine integers of at most 64 bits, far below
  the magnitude at which the conversion would overflow.
\<close>

fun bitLen :: "nat \<Rightarrow> nat" where
  "bitLen n = (if n = 0 then 0 else Suc (bitLen (n div 2)))"

declare bitLen.simps [simp del]

definition round53 :: "nat \<Rightarrow> nat" where
  "round53 m =
     (let e = bitLen m - 53; q = m div 2 ^ e; r = m mod 2 ^ e
      in if 2 * r < 2 ^ e then q * 2 ^ e
         else if 2 ^ e < 2 * r then (q + 1) * 2 ^ e
         else (if even q then q else q + 1) * 2 ^ e)"

definition float64 :: "int \<Rightarrow> float64" where
  "float64 n = Float64Int (sgn n * int (round53 (nat \<bar>n\<bar>)))"

subsection \<open>The statistics of package btrfs, as far as the collector reads them\<close>

text \<open>
  The types are declared by package \<open>btrfs\<close>; the collector fixes how they are used.
  Integer fields are only ever passed to \<open>float64()\<close> and are held as the \<open>int\<close> that
  is the value of the machine integer. The parameters of \<open>getAllocationStats\<close> and
  \<open>getLayoutStats\<close> are pointers (\<open>*btrfs.AllocationStats\<close>, \<open>*btrfs.LayoutUsage\<close>), so
  the fields passed to them are \<open>option\<close> values with \<open>None\<close> for \<open>nil\<close>.

  \<open>Devices\<close> is ranged over with a key that is used as a string
  (\<open>for n, dev := range s.Devices\<close>, \<open>[]string{n}\<close>) and measured with \<open>len\<close>: it is a
  Go map from device name to device. It is held as the list of its entries, whose
  order has no meaning of its own.
\<close>

record Device =
  Size :: int

record LayoutUsage =
  UsedBytes :: int
  TotalBytes :: int
  Ratio :: float64

record AllocationStats =
  ReservedBytes :: int
  Single :: "LayoutUsage option"
  Dup :: "LayoutUsage option"
  Raid0 :: "LayoutUsage option"
  Raid1 :: "LayoutUsage option"
  Raid5 :: "LayoutUsage option"
  Raid6 :: "LayoutUsage option"
  Raid10 :: "LayoutUsage option"

record Allocation =
  GlobalRsvSize :: int
  Data :: "AllocationStats option"
  Metadata :: "AllocationStats option"
  System :: "AllocationStats option"

record Stats =
  Label :: string
  UUID :: string
  Devices :: "(string \<times> Device) list"
  Allocation :: Allocation

text \<open>
  A \<open>range\<close> statement over a Go map visits every entry once, in an order that the
  language leaves unspecified and that may differ from one execution of the statement
  to the next. \<open>range_order m kvs\<close> says that \<open>kvs\<close> is a sequence of key/value pairs
  that \<open>range m\<close> may produce.
\<close>

definition range_order :: "(string \<times> 'v) list \<Rightarrow> (string \<times> 'v) list \<Rightarrow> bool" where
  "range_order m kvs \<longleftrightarrow> mset kvs = mset m"

subsection \<open>Metrics\<close>

record btrfsMetric =
  name :: string
  desc :: string
  val :: float64
  extraLabel :: "string list"
  extraLabelValue :: "string list"

subsection \<open>Panics\<close>

text \<open>
  Reading a field through a nil pointer panics, and so does \<open>MustNewConstMetric\<close> when
  the client library refuses the metric. A function that can panic returns the panic
  in place of its result, or beside the state it has reached.
\<close>

datatype panic = NilPointerDereference | InvalidConstMetric

subsection \<open>The client library\<close>

text \<open>
  Modelled from the spec: \<open>utf8.ValidString\<close> of the Go library, which the client
  library applies to every label value. The spec passes label, unique id and device
  name through unchanged and does not describe the check. A string is valid when it
  is a sequence of well-formed UTF-8 encodings: one byte below \<open>0x80\<close>, or a lead byte
  \<open>0xC2..0xF4\<close> with one to three continuation bytes, where the first continuation
  byte is restricted after the leads \<open>E0\<close>, \<open>ED\<close>, \<open>F0\<close> and \<open>F4\<close> (no overlong forms, no
  surrogates, nothing above \<open>U+10FFFF\<close>).
\<close>

definition inRange :: "nat \<Rightarrow> nat \<Rightarrow> char \<Rightarrow> bool" where
  "inRange lo hi c \<longleftrightarrow> lo \<le> of_char c \<and> of_char c \<le> hi"

fun ValidString :: "string \<Rightarrow> bool" where
  "ValidString [] = True"
| "ValidString (c # cs) =
     (if inRange 0x00 0x7F c then ValidString cs
      else if inRange 0xC2 0xDF c then
        (case cs of
           c1 # r \<Rightarrow> inRange 0x80 0xBF c1 \<and> ValidString r
         | _ \<Rightarrow> False)
      else if inRange 0xE0 0xEF c then
        (case cs of
           c1 # c2 # r \<Rightarrow>
             inRange (if of_char c = (0xE0::nat) then 0xA0 else 0x80)
                     (if of_char c = (0xED::nat) then 0x9F else 0xBF) c1 \<and>
             inRange 0x80 0xBF c2 \<and> ValidString r
         | _ \<Rightarrow> False)
      else if inRange 0xF0 0xF4 c then
        (case cs of
           c1 # c2 # c3 # r \<Rightarrow>
             inRange (if of_char c = (0xF0::nat) then 0x90 else 0x80)
                     (if of_char c = (0xF4::nat) then 0x8F else 0xBF) c1 \<and>
             inRange 0x80 0xBF c2 \<and> inRange 0x80 0xBF c3 \<and> ValidString r
         | _ \<Rightarrow> False)
      else False)"

text \<open>
  What the client library is given: \<open>NewDesc\<close> receives the fully qualified name, the
  help text, the label names and no constant labels; \<open>MustNewConstMetric\<close> receives the
  descriptor, the value type, the value and the label values.
\<close>

datatype ValueType = CounterValue | GaugeValue | UntypedValue

record Desc =
  fqName :: string
  "help" :: string
  variableLabels :: "string list"
  constLabels :: "(string \<times> string) list"

record ConstMetric =
  mdesc :: Desc
  valType :: ValueType
  mval :: float64
  labelValues :: "string list"

text \<open>
  Modelled from the spec: \<open>prometheus.NewDesc\<close> belongs to the client library. It is the
  record of its arguments. The names it is given in this file are constants joined to
  the namespace, the help texts are non-empty constants and the label names are
  distinct constants, so that its own checks of names do not depend on the snapshot.
\<close>

definition NewDesc :: "string \<Rightarrow> string \<Rightarrow> string list \<Rightarrow> (string \<times> string) list \<Rightarrow> Desc" where
  "NewDesc fq h ls cl = \<lparr>fqName = fq, help = h, variableLabels = ls, constLabels = cl\<rparr>"

text \<open>
  Modelled from the spec: \<open>prometheus.MustNewConstMetric\<close> belongs to the client
  library. The spec (section 4.1) names a label value list that does not match the
  label names in number as the violation of its contract; the library refuses such a
  call, and it refuses a label value that is not valid UTF-8. \<open>Must\<close> turns the refusal
  into a panic. Otherwise the metric is the record of the arguments.
\<close>

definition MustNewConstMetric :: "Desc \<Rightarrow> ValueType \<Rightarrow> float64 \<Rightarrow> string list \<Rightarrow> panic + ConstMetric" where
  "MustNewConstMetric d t v lvs =
     (if length lvs \<noteq> length (variableLabels d) then Inl InvalidConstMetric
      else if \<not> list_all ValidString lvs then Inl InvalidConstMetric
      else Inr \<lparr>mdesc = d, valType = t, mval = v, labelValues = lvs\<rparr>)"

text \<open>
  Modelled from the spec: \<open>prometheus.BuildFQName\<close> belongs to the client library. The
  spec gives the naming convention \<open><namespace>_btrfs_<metric-name>\<close>: the three parts
  joined by underscores. The constant \<open>namespace\<close> of package \<open>collector\<close> is declared
  in another file and is a parameter \<open>ns\<close> of the functions that use it.
\<close>

definition BuildFQName :: "string \<Rightarrow> string \<Rightarrow> string \<Rightarrow> string" where
  "BuildFQName ns sub n = ns @ ''_'' @ sub @ ''_'' @ n"

definition subsystem :: string where
  "subsystem = ''btrfs''"

definition devLabels :: "string list" where
  "devLabels = [''label'', ''uuid'']"

subsection \<open>getLayoutStats (lines 151-179)\<close>

definition getLayoutStats :: "string \<Rightarrow> string \<Rightarrow> LayoutUsage option \<Rightarrow> btrfsMetric list" where
  "getLayoutStats a l s =
     (case s of
        None \<Rightarrow> []
      | Some u \<Rightarrow>
          [\<lparr>name = ''used_bytes'',
            desc = ''Amount of used space by a layout/data type'',
            val = float64 (UsedBytes u),
            extraLabel = [''type'', ''mode''],
            extraLabelValue = [a, l]\<rparr>,
           \<lparr>name = ''total_bytes'',
            desc = ''Amount of space allocated for a layout/data type'',
            val = float64 (TotalBytes u),
            extraLabel = [''type'', ''mode''],
            extraLabelValue = [a, l]\<rparr>,
           \<lparr>name = ''ratio'',
            desc = ''Data allocation ratio for a layout/data type'',
            val = Ratio u,
            extraLabel = [''type'', ''mode''],
            extraLabelValue = [a, l]\<rparr>])"

subsection \<open>getAllocationStats (lines 129-149)\<close>

definition reservedMetric :: "string \<Rightarrow> AllocationStats \<Rightarrow> btrfsMetric" where
  "reservedMetric a r =
     \<lparr>name = ''reserved_bytes'',
      desc = ''Amount of space reserved for a data type'',
      val = float64 (ReservedBytes r),
      extraLabel = [''type''],
      extraLabelValue = [a]\<rparr>"

definition getAllocationStats :: "string \<Rightarrow> AllocationStats option \<Rightarrow> panic + btrfsMetric list" where
  "getAllocationStats a s =
     (case s of
        None \<Rightarrow> Inl NilPointerDereference
      | Some r \<Rightarrow>
          Inr ([reservedMetric a r]
               @ getLayoutStats a ''single'' (Single r)
               @ getLayoutStats a ''dup'' (Dup r)
               @ getLayoutStats a ''raid0'' (Raid0 r)
               @ getLayoutStats a ''raid1'' (Raid1 r)
               @ getLayoutStats a ''raid5'' (Raid5 r)
               @ getLayoutStats a ''raid6'' (Raid6 r)
               @ getLayoutStats a ''raid10'' (Raid10 r)))"

subsection \<open>updateBtrfsStats (lines 70-127)\<close>

text \<open>The loop of lines 89-99 over the entries \<open>kvs\<close> that \<open>range s.Devices\<close> produces.\<close>

definition deviceSizeMetric :: "string \<Rightarrow> Device \<Rightarrow> btrfsMetric" where
  "deviceSizeMetric n dev =
     \<lparr>name = ''device_size'',
      desc = ''Size of a device that is part of the filesystem.'',
      val = float64 (Size dev),
      extraLabel = [''device''],
      extraLabelValue = [n]\<rparr>"

fun deviceMetrics :: "btrfsMetric list \<Rightarrow> (string \<times> Device) list \<Rightarrow> btrfsMetric list" where
  "deviceMetrics metrics [] = metrics"
| "deviceMetrics metrics ((n, dev) # kvs) = deviceMetrics (metrics @ [deviceSizeMetric n dev]) kvs"

text \<open>
  Lines 75-103: the list \<open>metrics\<close>. The three calls of \<open>getAllocationStats\<close> run in
  order and the first one that panics ends the function, before anything is sent.
\<close>

definition deviceCountMetric :: "Stats \<Rightarrow> btrfsMetric" where
  "deviceCountMetric s =
     \<lparr>name = ''device_count'',
      desc = ''Number of devices that are part of the filesystem.'',
      val = float64 (int (length (Devices s))),
      extraLabel = [],
      extraLabelValue = []\<rparr>"

definition globalRsvSizeMetric :: "Stats \<Rightarrow> btrfsMetric" where
  "globalRsvSizeMetric s =
     \<lparr>name = ''global_rsv_size_bytes'',
      desc = ''Size of global reserve.'',
      val = float64 (GlobalRsvSize (Allocation s)),
      extraLabel = [],
      extraLabelValue = []\<rparr>"

definition buildMetrics :: "(string \<times> Device) list \<Rightarrow> Stats \<Rightarrow> panic + btrfsMetric list" where
  "buildMetrics kvs s =
     (let metrics = [deviceCountMetric s, globalRsvSizeMetric s];
          metrics = deviceMetrics metrics kvs
      in case getAllocationStats ''data'' (Data (Allocation s)) of
           Inl p \<Rightarrow> Inl p
         | Inr d \<Rightarrow>
             (case getAllocationStats ''metadata'' (Metadata (Allocation s)) of
                Inl p \<Rightarrow> Inl p
              | Inr m \<Rightarrow>
                  (case getAllocationStats ''system'' (System (Allocation s)) of
                     Inl p \<Rightarrow> Inl p
                   | Inr y \<Rightarrow> Inr (((metrics @ d) @ m) @ y))))"

text \<open>
  The body of the loop of lines 105-126: the metric built for one entry \<open>m\<close>, or the
  panic of \<open>MustNewConstMetric\<close>.
\<close>

definition sendMetric :: "string \<Rightarrow> Stats \<Rightarrow> btrfsMetric \<Rightarrow> panic + ConstMetric" where
  "sendMetric ns s m =
     (let labels = devLabels @ extraLabel m;
          d = NewDesc (BuildFQName ns subsystem (name m)) (desc m) labels [];
          labelValues = [Label s, UUID s];
          labelValues = (if length (extraLabelValue m) > 0
                         then labelValues @ extraLabelValue m else labelValues)
      in MustNewConstMetric d GaugeValue (val m) labelValues)"

text \<open>
  The loop of lines 105-126 with the channel passed as state: \<open>ch\<close> holds what has been
  sent so far. Each entry is built and sent in turn; a panic ends the loop and leaves
  on the channel what was sent before it.
\<close>

fun sendLoop :: "string \<Rightarrow> Stats \<Rightarrow> btrfsMetric list \<Rightarrow> ConstMetric list
    \<Rightarrow> ConstMetric list \<times> panic option" where
  "sendLoop ns s [] ch = (ch, None)"
| "sendLoop ns s (m # metrics) ch =
     (case sendMetric ns s m of
        Inl p \<Rightarrow> (ch, Some p)
      | Inr e \<Rightarrow> sendLoop ns s metrics (ch @ [e]))"

text \<open>
  \<open>updateBtrfsStats ns kvs s ch\<close> is the channel after the call and the panic that ended
  it, if any. The parameter \<open>s\<close> is a pointer \<open>*btrfs.Stats\<close>. A nil dereference arises
  while \<open>metrics\<close> is built, before the first send; the panic of \<open>MustNewConstMetric\<close>
  arises in the sending loop, after the metrics before it were sent.
\<close>

definition updateBtrfsStats :: "string \<Rightarrow> (string \<times> Device) list \<Rightarrow> Stats option \<Rightarrow> ConstMetric list
    \<Rightarrow> ConstMetric list \<times> panic option" where
  "updateBtrfsStats ns kvs sp ch =
     (case sp of
        None \<Rightarrow> (ch, Some NilPointerDereference)
      | Some s \<Rightarrow>
          (case buildMetrics kvs s of
             Inl p \<Rightarrow> (ch, Some p)
           | Inr metrics \<Rightarrow> sendLoop ns s metrics ch))"

subsection \<open>NewBtrfsCollector (lines 35-44) and Update (lines 47-58)\<close>

text \<open>
  A Go \<open>error\<close> is held as its message. \<open>btrfs.NewFS\<close> and the method \<open>Stats\<close> of the
  handle belong to package \<open>btrfs\<close> and are parameters: \<open>NewFS path\<close> is \<open>Inl err\<close> when
  opening fails and \<open>Inr fs\<close> otherwise, and \<open>Stats fs\<close> is \<open>Inl err\<close> or the slice of
  \<open>*btrfs.Stats\<close>. The flag value \<open>*sysPath\<close> is a parameter as well.
\<close>

record 'fs btrfsCollector =
  fs :: 'fs

definition NewBtrfsCollector :: "(string \<Rightarrow> string + 'fs) \<Rightarrow> string \<Rightarrow> string + 'fs btrfsCollector" where
  "NewBtrfsCollector NewFS sysPath =
     (case NewFS sysPath of
        Inl err \<Rightarrow> Inl (''failed to open sysfs: '' @ err)
      | Inr h \<Rightarrow> Inr \<lparr>fs = h\<rparr>)"

text \<open>
  The loop of lines 53-55, again with the channel as state. The call for the snapshot
  at position \<open>i\<close> ranges over its devices in the order \<open>kvss i\<close>. A panic ends the loop
  and leaves on the channel what was sent before it.
\<close>

fun updateLoop :: "string \<Rightarrow> (nat \<Rightarrow> (string \<times> Device) list) \<Rightarrow> nat \<Rightarrow> Stats option list
    \<Rightarrow> ConstMetric list \<Rightarrow> ConstMetric list \<times> panic option" where
  "updateLoop ns kvss i [] ch = (ch, None)"
| "updateLoop ns kvss i (s # stats) ch =
     (case updateBtrfsStats ns (kvss i) s ch of
        (ch', Some p) \<Rightarrow> (ch', Some p)
      | (ch', None) \<Rightarrow> updateLoop ns kvss (Suc i) stats ch')"

text \<open>How a call of \<open>Update\<close> ends: it returns an error or nil, or it panics.\<close>

datatype outcome = Returned "string option" | Panicked panic

definition Update :: "string \<Rightarrow> ('fs \<Rightarrow> string + Stats option list) \<Rightarrow> (nat \<Rightarrow> (string \<times> Device) list)
    \<Rightarrow> 'fs btrfsCollector \<Rightarrow> ConstMetric list \<Rightarrow> ConstMetric list \<times> outcome" where
  "Update ns Stats kvss c ch =
     (case Stats (fs c) of
        Inl err \<Rightarrow> (ch, Returned (Some (''failed to retrieve Btrfs stats: '' @ err)))
      | Inr stats \<Rightarrow>
          (case updateLoop ns kvss 0 stats ch of
             (ch', None) \<Rightarrow> (ch', Returned None)
           | (ch', Some p) \<Rightarrow> (ch', Panicked p)))"

subsection \<open>The vocabulary of the specification\<close>

text \<open>
  The three allocation categories and the seven layouts, each as the list of names
  paired with the field that holds the record, in the order the specification
  enumerates them.
\<close>

definition categories :: "Allocation \<Rightarrow> (string \<times> AllocationStats option) list" where
  "categories al = [(''data'', Data al), (''metadata'', Metadata al), (''system'', System al)]"

definition layouts :: "AllocationStats \<Rightarrow> (string \<times> LayoutUsage option) list" where
  "layouts r = [(''single'', Single r), (''dup'', Dup r), (''raid0'', Raid0 r), (''raid1'', Raid1 r),
                (''raid5'', Raid5 r), (''raid6'', Raid6 r), (''raid10'', Raid10 r)]"

text \<open>
  The list that \<open>getAllocationStats\<close> returns for a category record \<open>r\<close>, written over the
  enumeration of the layouts.
\<close>

definition allocationMetrics :: "string \<Rightarrow> AllocationStats \<Rightarrow> btrfsMetric list" where
  "allocationMetrics a r = reservedMetric a r # concat (map (\<lambda>(l, x). getLayoutStats a l x) (layouts r))"

definition presentLayouts :: "AllocationStats \<Rightarrow> (string \<times> LayoutUsage) list" where
  "presentLayouts r = concat (map (\<lambda>(l, x). case x of None \<Rightarrow> [] | Some u \<Rightarrow> [(l, u)]) (layouts r))"

text \<open>A snapshot in the sense of the specification has all three category records.\<close>

definition categoriesPresent :: "Stats \<Rightarrow> bool" where
  "categoriesPresent s \<longleftrightarrow>
     Data (Allocation s) \<noteq> None \<and> Metadata (Allocation s) \<noteq> None \<and> System (Allocation s) \<noteq> None"

text \<open>
  An emission as the specification describes it: the metric name, the label names, the
  label values and the numeric value.
\<close>

type_synonym emission = "string \<times> string list \<times> string list \<times> float64"

definition emission :: "ConstMetric \<Rightarrow> emission" where
  "emission e = (fqName (mdesc e), variableLabels (mdesc e), labelValues e, mval e)"

text \<open>
  The label values that come from the snapshot are valid UTF-8: the label, the unique
  id and the name of every device.
\<close>

definition validLabels :: "Stats \<Rightarrow> bool" where
  "validLabels s \<longleftrightarrow>
     ValidString (Label s) \<and> ValidString (UUID s) \<and>
     list_all (\<lambda>nd. ValidString (fst nd)) (Devices s)"

text \<open>The metric that \<open>sendMetric\<close> builds for an entry when the library accepts it.\<close>

definition constMetric :: "string \<Rightarrow> Stats \<Rightarrow> btrfsMetric \<Rightarrow> ConstMetric" where
  "constMetric ns s m =
     \<lparr>mdesc = \<lparr>fqName = ns @ ''_btrfs_'' @ name m, help = desc m,
               variableLabels = ''label'' # ''uuid'' # extraLabel m, constLabels = []\<rparr>,
      valType = GaugeValue, mval = val m,
      labelValues = Label s # UUID s # extraLabelValue m\<rparr>"

text \<open>The emission for one entry of \<open>metrics\<close>.\<close>

definition emit :: "string \<Rightarrow> Stats \<Rightarrow> btrfsMetric \<Rightarrow> emission" where
  "emit ns s m = emission (constMetric ns s m)"

text \<open>
  The algorithm of the specification (section 4.1, steps 1 to 6), written from its
  words over a sequence \<open>devs\<close> of devices: the two unconditional metrics, one
  \<open>device_size\<close> per device, then per category \<open>reserved_bytes\<close> and three metrics per
  present layout.
\<close>

definition spec_name :: "string \<Rightarrow> string \<Rightarrow> string" where
  "spec_name ns n = ns @ ''_btrfs_'' @ n"

definition spec_layout :: "string \<Rightarrow> Stats \<Rightarrow> string \<Rightarrow> string \<times> LayoutUsage \<Rightarrow> emission list" where
  "spec_layout ns s a lu =
     (let labels = [''label'', ''uuid'', ''type'', ''mode''];
          vals = [Label s, UUID s, a, fst lu]
      in [(spec_name ns ''used_bytes'', labels, vals, float64 (UsedBytes (snd lu))),
          (spec_name ns ''total_bytes'', labels, vals, float64 (TotalBytes (snd lu))),
          (spec_name ns ''ratio'', labels, vals, Ratio (snd lu))])"

definition spec_category :: "string \<Rightarrow> Stats \<Rightarrow> string \<times> AllocationStats option \<Rightarrow> emission list" where
  "spec_category ns s ar =
     (case snd ar of
        None \<Rightarrow> []
      | Some r \<Rightarrow>
          (spec_name ns ''reserved_bytes'', [''label'', ''uuid'', ''type''], [Label s, UUID s, fst ar],
           float64 (ReservedBytes r))
          # concat (map (spec_layout ns s (fst ar)) (presentLayouts r)))"

definition spec_device :: "string \<Rightarrow> Stats \<Rightarrow> string \<times> Device \<Rightarrow> emission" where
  "spec_device ns s nd =
     (spec_name ns ''device_size'', [''label'', ''uuid'', ''device''], [Label s, UUID s, fst nd],
      float64 (Size (snd nd)))"

definition spec_flatten :: "string \<Rightarrow> (string \<times> Device) list \<Rightarrow> Stats \<Rightarrow> emission list" where
  "spec_flatten ns devs s =
     [(spec_name ns ''device_count'', [''label'', ''uuid''], [Label s, UUID s],
       float64 (int (length (Devices s)))),
      (spec_name ns ''global_rsv_size_bytes'', [''label'', ''uuid''], [Label s, UUID s],
       float64 (GlobalRsvSize (Allocation s)))]
     @ map (spec_device ns s) devs
     @ concat (map (spec_category ns s) (categories (Allocation s)))"

text \<open>
  The names of the metrics of one category: \<open>reserved_bytes\<close>, then \<open>used_bytes\<close>,
  \<open>total_bytes\<close> and \<open>ratio\<close> once per present layout.
\<close>

definition categoryMetricNames :: "string \<Rightarrow> AllocationStats \<Rightarrow> string list" where
  "categoryMetricNames ns r =
     spec_name ns ''reserved_bytes''
     # concat (map (\<lambda>lu. [spec_name ns ''used_bytes'', spec_name ns ''total_bytes'',
                          spec_name ns ''ratio'']) (presentLayouts r))"

text \<open>
  The emissions that belong to layout \<open>l\<close> of category \<open>a\<close>: those labelled with
  \<open>type\<close> and \<open>mode\<close> whose values are \<open>a\<close> and \<open>l\<close>.
\<close>

definition forLayout :: "string \<Rightarrow> string \<Rightarrow> ConstMetric \<Rightarrow> bool" where
  "forLayout a l e \<longleftrightarrow>
     variableLabels (mdesc e) = [''label'', ''uuid'', ''type'', ''mode''] \<and>
     drop 2 (labelValues e) = [a, l]"

definition categoryNames :: "string list" where
  "categoryNames = [''data'', ''metadata'', ''system'']"

definition layoutNames :: "string list" where
  "layoutNames = [''single'', ''dup'', ''raid0'', ''raid1'', ''raid5'', ''raid6'', ''raid10'']"

subsection \<open>Example snapshots\<close>

text \<open>
  The example of section 8 of the specification: one device, category \<open>data\<close> with the
  layout \<open>single\<close> (ratio 0.25, given by its bits), the other two categories without
  layouts.
\<close>

definition noLayouts :: "int \<Rightarrow> AllocationStats" where
  "noLayouts n = \<lparr>ReservedBytes = n, Single = None, Dup = None, Raid0 = None, Raid1 = None,
                  Raid5 = None, Raid6 = None, Raid10 = None\<rparr>"

definition exampleSingle :: LayoutUsage where
  "exampleSingle = \<lparr>UsedBytes = 5, TotalBytes = 20, Ratio = Float64frombits 0x3FD0000000000000\<rparr>"

definition exampleData :: AllocationStats where
  "exampleData = (noLayouts 10)\<lparr>Single := Some exampleSingle\<rparr>"

definition exampleStats :: Stats where
  "exampleStats =
     \<lparr>Label = ''vol1'', UUID = ''abc'',
      Devices = [(''sda'', \<lparr>Size = 100\<rparr>)],
      Allocation =
        \<lparr>GlobalRsvSize = 50,
         Data = Some exampleData,
         Metadata = Some (noLayouts 0),
         System = Some (noLayouts 0)\<rparr>\<rparr>"

text \<open>
  The other example of section 8: two devices, category \<open>data\<close> with the layouts \<open>single\<close>
  and \<open>raid1\<close>, no layouts in \<open>metadata\<close> and \<open>system\<close>.
\<close>

definition twoDeviceStats :: Stats where
  "twoDeviceStats =
     \<lparr>Label = ''pool'', UUID = ''0abc'',
      Devices = [(''sda'', \<lparr>Size = 100\<rparr>), (''sdb'', \<lparr>Size = 200\<rparr>)],
      Allocation =
        \<lparr>GlobalRsvSize = 16,
         Data = Some ((noLayouts 8)\<lparr>
                  Single := Some \<lparr>UsedBytes = 1, TotalBytes = 2, Ratio = Float64frombits 0x3FF0000000000000\<rparr>,
                  Raid1 := Some \<lparr>UsedBytes = 3, TotalBytes = 4, Ratio = Float64frombits 0x4000000000000000\<rparr>\<rparr>),
         Metadata = Some (noLayouts 0),
         System = Some (noLayouts 0)\<rparr>\<rparr>"


text \<open>
  The first example with a label that is the single byte \<open>0xFF\<close>, which is not valid
  UTF-8.
\<close>

definition badLabelStats :: Stats where
  "badLabelStats = exampleStats\<lparr>Label := [CHR 0xFF]\<rparr>"

text \<open>
  A statistics source with two handles: handle \<open>0\<close> returns the two example snapshots,
  any other handle fails to read. \<open>exampleOrders\<close> gives the order in which the
  devices of the snapshot at each position are visited. \<open>exampleNewFS\<close> opens handle \<open>0\<close>
  for the path \<open>/sys\<close> and fails for any other path.
\<close>

definition exampleSource :: "nat \<Rightarrow> string + Stats option list" where
  "exampleSource h = (if h = 0 then Inr [Some exampleStats, Some twoDeviceStats] else Inl ''read error'')"

text \<open>A source whose second snapshot has the label that is not valid UTF-8.\<close>

definition badLabelSource :: "nat \<Rightarrow> string + Stats option list" where
  "badLabelSource h = Inr [Some exampleStats, Some badLabelStats]"

definition exampleOrders :: "nat \<Rightarrow> (string \<times> Device) list" where
  "exampleOrders i =
     (if i = 0 then [(''sda'', \<lparr>Size = 100\<rparr>)]
      else [(''sdb'', \<lparr>Size = 200\<rparr>), (''sda'', \<lparr>Size = 100\<rparr>)])"

definition exampleNewFS :: "string \<Rightarrow> string + nat" where
  "exampleNewFS path = (if path = ''/sys'' then Inr 0 else Inl ''no such file or directory'')"

section \<open>Properties\<close>

subsection \<open>The conversion to float64\<close>

lemma bitLen_numeral [simp]:
  "bitLen 0 = 0" "bitLen (Suc 0) = Suc 0" "bitLen (numeral k) = Suc (bitLen (numeral k div 2))"
  by (simp_all add: bitLen.simps [of 0] bitLen.simps [of "Suc 0"] bitLen.simps [of "numeral k"])



subsection \<open>The shape of the metric list\<close>

lemma deviceMetrics_append: "deviceMetrics acc kvs = acc @ map (\<lambda>(n, dev). deviceSizeMetric n dev) kvs"
  by (induction kvs arbitrary: acc) auto

lemma getAllocationStats_Some: "getAllocationStats a (Some r) = Inr (allocationMetrics a r)"
  by (simp add: getAllocationStats_def allocationMetrics_def layouts_def)

lemma buildMetrics_present:
  assumes "Data (Allocation s) = Some d" "Metadata (Allocation s) = Some m"
    "System (Allocation s) = Some y"
  shows "buildMetrics kvs s =
     Inr ([deviceCountMetric s, globalRsvSizeMetric s]
          @ map (\<lambda>(n, dev). deviceSizeMetric n dev) kvs
          @ allocationMetrics ''data'' d
          @ allocationMetrics ''metadata'' m
          @ allocationMetrics ''system'' y)"
  using assms by (simp add: buildMetrics_def getAllocationStats_Some Let_def deviceMetrics_append)

lemma length_getLayoutStats: "length (getLayoutStats a l x) = (case x of None \<Rightarrow> 0 | Some u \<Rightarrow> 3)"
  by (simp add: getLayoutStats_def split: option.split)

lemma length_allocationMetrics: "length (allocationMetrics a r) = 1 + 3 * length (presentLayouts r)"
proof -
  have "length (concat (map (\<lambda>(l, x). getLayoutStats a l x) ls)) =
        3 * length (concat (map (\<lambda>(l, x). case x of None \<Rightarrow> [] | Some u \<Rightarrow> [(l, u)]) ls))" for ls
    by (induction ls) (auto simp: length_getLayoutStats split: option.split)
  then show ?thesis
    by (simp add: allocationMetrics_def presentLayouts_def)
qed

subsection \<open>The sending loop\<close>

lemma valid_names:
  "ValidString ''data''" "ValidString ''metadata''" "ValidString ''system''"
  "ValidString ''single''" "ValidString ''dup''" "ValidString ''raid0''" "ValidString ''raid1''"
  "ValidString ''raid5''" "ValidString ''raid6''" "ValidString ''raid10''"
  by (simp_all add: inRange_def)

lemma sendMetric_cases:
  "sendMetric ns s m =
     (if length (extraLabelValue m) = length (extraLabel m) \<and> ValidString (Label s) \<and>
         ValidString (UUID s) \<and> list_all ValidString (extraLabelValue m)
      then Inr (constMetric ns s m) else Inl InvalidConstMetric)"
  by (cases "extraLabelValue m")
    (auto simp: sendMetric_def Let_def devLabels_def NewDesc_def MustNewConstMetric_def
      BuildFQName_def subsystem_def constMetric_def)

lemma sendLoop_prefix:
  "\<exists>k\<le>length ms.
     sendLoop ns s ms ch =
       (ch @ map (constMetric ns s) (take k ms),
        if k = length ms then None else Some InvalidConstMetric)"
proof (induction ms arbitrary: ch)
  case Nil
  then show ?case by simp
next
  case (Cons m ms)
  show ?case
  proof (cases "sendMetric ns s m")
    case (Inl p)
    then have "p = InvalidConstMetric"
      by (simp add: sendMetric_cases split: if_splits)
    with Inl have "sendLoop ns s (m # ms) ch =
        (ch @ map (constMetric ns s) (take 0 (m # ms)),
         if 0 = length (m # ms) then None else Some InvalidConstMetric)"
      by simp
    then show ?thesis
      by (intro exI [of _ 0]) simp
  next
    case (Inr e)
    then have e: "e = constMetric ns s m"
      by (simp add: sendMetric_cases split: if_splits)
    from Cons.IH [of "ch @ [e]"] obtain k where k: "k \<le> length ms"
      "sendLoop ns s ms (ch @ [e]) =
         ((ch @ [e]) @ map (constMetric ns s) (take k ms),
          if k = length ms then None else Some InvalidConstMetric)"
      by blast
    with Inr e have "sendLoop ns s (m # ms) ch =
        (ch @ map (constMetric ns s) (take (Suc k) (m # ms)),
         if Suc k = length (m # ms) then None else Some InvalidConstMetric)"
      by simp
    with k(1) show ?thesis
      by (intro exI [of _ "Suc k"]) simp
  qed
qed

lemma sendLoop_all:
  assumes "\<forall>m\<in>set ms. sendMetric ns s m = Inr (constMetric ns s m)"
  shows "sendLoop ns s ms ch = (ch @ map (constMetric ns s) ms, None)"
  using assms by (induction ms arbitrary: ch) simp_all

lemma accepted_getLayoutStats:
  assumes "ValidString (Label s)" "ValidString (UUID s)" "ValidString a" "ValidString l"
    and "m \<in> set (getLayoutStats a l x)"
  shows "sendMetric ns s m = Inr (constMetric ns s m)"
  using assms by (cases x) (auto simp: getLayoutStats_def sendMetric_cases)

lemma accepted_allocationMetrics:
  assumes "ValidString (Label s)" "ValidString (UUID s)" "ValidString a"
    and "m \<in> set (allocationMetrics a r)"
  shows "sendMetric ns s m = Inr (constMetric ns s m)"
proof -
  from assms(4) consider "m = reservedMetric a r"
    | l x where "(l, x) \<in> set (layouts r)" "m \<in> set (getLayoutStats a l x)"
    by (auto simp: allocationMetrics_def)
  then show ?thesis
  proof cases
    case 1
    with assms(1-3) show ?thesis
      by (simp add: reservedMetric_def sendMetric_cases)
  next
    case 2
    from 2(1) have "ValidString l"
      using valid_names by (auto simp: layouts_def)
    from accepted_getLayoutStats [OF assms(1-3) this 2(2)] show ?thesis .
  qed
qed

lemma accepted_deviceMetrics:
  assumes "ValidString (Label s)" "ValidString (UUID s)"
    and "\<forall>nd\<in>set kvs. ValidString (fst nd)"
    and "m \<in> set (map (\<lambda>(n, dev). deviceSizeMetric n dev) kvs)"
  shows "sendMetric ns s m = Inr (constMetric ns s m)"
  using assms by (auto simp: deviceSizeMetric_def sendMetric_cases)

lemma validLabels_range:
  assumes "validLabels s" and "range_order (Devices s) kvs"
  shows "ValidString (Label s)" "ValidString (UUID s)" "\<forall>nd\<in>set kvs. ValidString (fst nd)"
proof -
  from assms(2) have "set kvs = set (Devices s)"
    unfolding range_order_def by (rule mset_eq_setD)
  with assms(1) show "ValidString (Label s)" "ValidString (UUID s)"
    "\<forall>nd\<in>set kvs. ValidString (fst nd)"
    by (simp_all add: validLabels_def list_all_iff)
qed

lemma run_valid:
  assumes "Data (Allocation s) = Some d" "Metadata (Allocation s) = Some m"
    "System (Allocation s) = Some y"
    and "validLabels s" and "range_order (Devices s) kvs"
  shows "updateBtrfsStats ns kvs (Some s) ch =
     (ch @ map (constMetric ns s)
            ([deviceCountMetric s, globalRsvSizeMetric s]
             @ map (\<lambda>(n, dev). deviceSizeMetric n dev) kvs
             @ allocationMetrics ''data'' d
             @ allocationMetrics ''metadata'' m
             @ allocationMetrics ''system'' y), None)"
proof -
  note v = validLabels_range [OF assms(4,5)]
  have "sendMetric ns s x = Inr (constMetric ns s x)"
    if "x \<in> set ([deviceCountMetric s, globalRsvSizeMetric s]
             @ map (\<lambda>(n, dev). deviceSizeMetric n dev) kvs
             @ allocationMetrics ''data'' d
             @ allocationMetrics ''metadata'' m
             @ allocationMetrics ''system'' y)" for x
  proof -
    from that consider "x = deviceCountMetric s" | "x = globalRsvSizeMetric s"
      | "x \<in> set (map (\<lambda>(n, dev). deviceSizeMetric n dev) kvs)"
      | "x \<in> set (allocationMetrics ''data'' d)"
      | "x \<in> set (allocationMetrics ''metadata'' m)"
      | "x \<in> set (allocationMetrics ''system'' y)"
      unfolding set_append set_simps by blast
    then show ?thesis
    proof cases
      case 1
      with v(1,2) show ?thesis by (simp add: deviceCountMetric_def sendMetric_cases)
    next
      case 2
      with v(1,2) show ?thesis by (simp add: globalRsvSizeMetric_def sendMetric_cases)
    next
      case 3
      from accepted_deviceMetrics [OF v this] show ?thesis .
    next
      case 4
      from accepted_allocationMetrics [OF v(1,2) valid_names(1) this] show ?thesis .
    next
      case 5
      from accepted_allocationMetrics [OF v(1,2) valid_names(2) this] show ?thesis .
    next
      case 6
      from accepted_allocationMetrics [OF v(1,2) valid_names(3) this] show ?thesis .
    qed
  qed
  then have "\<forall>x\<in>set ([deviceCountMetric s, globalRsvSizeMetric s]
             @ map (\<lambda>(n, dev). deviceSizeMetric n dev) kvs
             @ allocationMetrics ''data'' d
             @ allocationMetrics ''metadata'' m
             @ allocationMetrics ''system'' y). sendMetric ns s x = Inr (constMetric ns s x)"
    by blast
  from sendLoop_all [OF this] show ?thesis
    by (simp add: updateBtrfsStats_def buildMetrics_present [OF assms(1-3)])
qed

lemma run_prefix:
  assumes "buildMetrics kvs s = Inr ms"
  shows "\<exists>k\<le>length ms.
     updateBtrfsStats ns kvs (Some s) ch =
       (ch @ map (constMetric ns s) (take k ms),
        if k = length ms then None else Some InvalidConstMetric)"
  using sendLoop_prefix [of ms ns s ch] assms by (simp add: updateBtrfsStats_def)

subsection \<open>Emissions\<close>

lemma emit_eq:
  "emit ns s m =
     (spec_name ns (name m), ''label'' # ''uuid'' # extraLabel m,
      Label s # UUID s # extraLabelValue m, val m)"
  by (simp add: emit_def emission_def constMetric_def spec_name_def)

lemma map_emission_constMetric: "map emission (map (constMetric ns s) ms) = map (emit ns s) ms"
  by (simp add: emit_def)

lemma emit_getLayoutStats:
  "map (emit ns s) (getLayoutStats a l x) =
     (case x of None \<Rightarrow> [] | Some u \<Rightarrow> spec_layout ns s a (l, u))"
  by (simp add: getLayoutStats_def emit_eq spec_layout_def Let_def split: option.split)

lemma emit_layouts:
  "map (emit ns s) (concat (map (\<lambda>(l, x). getLayoutStats a l x) ls)) =
     concat (map (spec_layout ns s a)
       (concat (map (\<lambda>(l, x). case x of None \<Rightarrow> [] | Some u \<Rightarrow> [(l, u)]) ls)))"
  by (induction ls) (auto simp: emit_getLayoutStats split: option.split)

lemma emit_allocationMetrics:
  "map (emit ns s) (allocationMetrics a r) = spec_category ns s (a, Some r)"
  by (simp add: allocationMetrics_def emit_layouts spec_category_def presentLayouts_def emit_eq
      reservedMetric_def)

lemma emit_deviceMetrics:
  "map (emit ns s) (map (\<lambda>(n, dev). deviceSizeMetric n dev) kvs) = map (spec_device ns s) kvs"
  by (induction kvs) (auto simp: emit_eq spec_device_def deviceSizeMetric_def)

lemma emit_buildMetrics:
  assumes "Data (Allocation s) = Some d" "Metadata (Allocation s) = Some m"
    "System (Allocation s) = Some y"
  shows "map (emit ns s)
          ([deviceCountMetric s, globalRsvSizeMetric s]
           @ map (\<lambda>(n, dev). deviceSizeMetric n dev) kvs
           @ allocationMetrics ''data'' d
           @ allocationMetrics ''metadata'' m
           @ allocationMetrics ''system'' y) = spec_flatten ns kvs s"
proof -
  have "map (emit ns s) [deviceCountMetric s, globalRsvSizeMetric s] =
          [(spec_name ns ''device_count'', [''label'', ''uuid''], [Label s, UUID s],
            float64 (int (length (Devices s)))),
           (spec_name ns ''global_rsv_size_bytes'', [''label'', ''uuid''], [Label s, UUID s],
            float64 (GlobalRsvSize (Allocation s)))]"
    by (simp add: emit_eq deviceCountMetric_def globalRsvSizeMetric_def)
  then show ?thesis
    unfolding map_append emit_allocationMetrics emit_deviceMetrics
    by (simp add: spec_flatten_def categories_def assms)
qed

lemma forLayout_constMetric:
  "forLayout a l (constMetric ns s m) \<longleftrightarrow>
     extraLabel m = [''type'', ''mode''] \<and> extraLabelValue m = [a, l]"
  by (simp add: forLayout_def constMetric_def)

lemma filter_constMetric:
  "filter (forLayout a l) (map (constMetric ns s) ms) =
     map (constMetric ns s) (filter (\<lambda>m. extraLabel m = [''type'', ''mode''] \<and> extraLabelValue m = [a, l]) ms)"
  by (simp add: filter_map comp_def forLayout_constMetric)

lemma filter_getLayoutStats:
  "filter (\<lambda>m. extraLabel m = [''type'', ''mode''] \<and> extraLabelValue m = [a, l]) (getLayoutStats a' l' x) =
     (if a' = a \<and> l' = l then getLayoutStats a' l' x else [])"
  by (auto simp: getLayoutStats_def split: option.split)

lemma filter_allocationMetrics_other:
  "a' \<noteq> a \<Longrightarrow>
   filter (\<lambda>m. extraLabel m = [''type'', ''mode''] \<and> extraLabelValue m = [a, l]) (allocationMetrics a' r) = []"
  by (simp add: allocationMetrics_def layouts_def filter_getLayoutStats reservedMetric_def)

lemma filter_allocationMetrics_same:
  "(l, x) \<in> set (layouts r) \<Longrightarrow>
   filter (\<lambda>m. extraLabel m = [''type'', ''mode''] \<and> extraLabelValue m = [a, l]) (allocationMetrics a r) =
     getLayoutStats a l x"
  by (auto simp: allocationMetrics_def layouts_def filter_getLayoutStats reservedMetric_def)

lemma filter_deviceMetrics:
  "filter (\<lambda>m. extraLabel m = [''type'', ''mode''] \<and> extraLabelValue m = [a, l])
     (map (\<lambda>(n, dev). deviceSizeMetric n dev) kvs) = []"
  by (induction kvs) (auto simp: deviceSizeMetric_def)

lemma aligned_getLayoutStats:
  assumes "a \<in> set categoryNames" and "l \<in> set layoutNames" and "m \<in> set (getLayoutStats a l x)"
  shows "length (extraLabelValue m) = length (extraLabel m) \<and>
         set (zip (extraLabel m) (extraLabelValue m))
           \<subseteq> {''device''} \<times> D \<union> {''type''} \<times> set categoryNames \<union> {''mode''} \<times> set layoutNames"
  using assms by (cases x) (auto simp: getLayoutStats_def)

lemma aligned_allocationMetrics:
  assumes "a \<in> set categoryNames" and "m \<in> set (allocationMetrics a r)"
  shows "length (extraLabelValue m) = length (extraLabel m) \<and>
         set (zip (extraLabel m) (extraLabelValue m))
           \<subseteq> {''device''} \<times> D \<union> {''type''} \<times> set categoryNames \<union> {''mode''} \<times> set layoutNames"
proof -
  from assms(2) consider "m = reservedMetric a r"
    | l x where "(l, x) \<in> set (layouts r)" "m \<in> set (getLayoutStats a l x)"
    by (auto simp: allocationMetrics_def)
  then show ?thesis
  proof cases
    case 1
    with assms(1) show ?thesis by (simp add: reservedMetric_def)
  next
    case 2
    from 2(1) have "l \<in> set layoutNames"
      by (auto simp: layouts_def layoutNames_def)
    from aligned_getLayoutStats [OF assms(1) this 2(2)] show ?thesis .
  qed
qed

subsection \<open>Names of the emissions\<close>

lemma names_allocationMetrics:
  "map (\<lambda>m. fqName (mdesc (constMetric ns s m))) (allocationMetrics a r) = categoryMetricNames ns r"
proof -
  have "map (\<lambda>m. fqName (mdesc (constMetric ns s m))) (concat (map (\<lambda>(l, x). getLayoutStats a l x) ls)) =
        concat (map (\<lambda>lu. [spec_name ns ''used_bytes'', spec_name ns ''total_bytes'', spec_name ns ''ratio''])
          (concat (map (\<lambda>(l, x). case x of None \<Rightarrow> [] | Some u \<Rightarrow> [(l, u)]) ls)))" for ls
    by (induction ls)
      (auto simp: getLayoutStats_def constMetric_def spec_name_def split: option.split)
  then show ?thesis
    by (simp add: allocationMetrics_def categoryMetricNames_def presentLayouts_def constMetric_def
        reservedMetric_def spec_name_def)
qed

lemma names_deviceMetrics:
  "map (\<lambda>m. fqName (mdesc (constMetric ns s m))) (map (\<lambda>(n, dev). deviceSizeMetric n dev) kvs) =
     replicate (length kvs) (spec_name ns ''device_size'')"
  by (induction kvs) (auto simp: constMetric_def deviceSizeMetric_def spec_name_def)

subsection \<open>The example snapshots\<close>

lemma exampleStats_present:
  "categoriesPresent exampleStats"
  "Data (Allocation exampleStats) = Some exampleData"
  "Metadata (Allocation exampleStats) = Some (noLayouts 0)"
  "System (Allocation exampleStats) = Some (noLayouts 0)"
  "validLabels exampleStats"
  "range_order (Devices exampleStats) [(''sda'', \<lparr>Size = 100\<rparr>)]"
  by (simp_all add: categoriesPresent_def exampleStats_def validLabels_def range_order_def
      inRange_def)

lemma twoDeviceStats_present:
  "Data (Allocation twoDeviceStats) = Some ((noLayouts 8)\<lparr>
      Single := Some \<lparr>UsedBytes = 1, TotalBytes = 2, Ratio = Float64frombits 0x3FF0000000000000\<rparr>,
      Raid1 := Some \<lparr>UsedBytes = 3, TotalBytes = 4, Ratio = Float64frombits 0x4000000000000000\<rparr>\<rparr>)"
  "Metadata (Allocation twoDeviceStats) = Some (noLayouts 0)"
  "System (Allocation twoDeviceStats) = Some (noLayouts 0)"
  "categoriesPresent twoDeviceStats"
  "validLabels twoDeviceStats"
  "range_order (Devices twoDeviceStats) [(''sda'', \<lparr>Size = 100\<rparr>), (''sdb'', \<lparr>Size = 200\<rparr>)]"
  "range_order (Devices twoDeviceStats) [(''sdb'', \<lparr>Size = 200\<rparr>), (''sda'', \<lparr>Size = 100\<rparr>)]"
  by (simp_all add: twoDeviceStats_def categoriesPresent_def validLabels_def range_order_def
      inRange_def)

subsection \<open>Number of emissions\<close>

text \<open>
  Claim C1, as the code has it. For every snapshot with its three category records
  whose label, unique id and device names are valid UTF-8, \<open>updateBtrfsStats\<close> returns
  after sending 2 unconditional metrics (\<open>device_count\<close>, \<open>global_rsv_size_bytes\<close>), one
  \<open>device_size\<close> metric per device and, for each of the three categories, one
  \<open>reserved_bytes\<close> metric and three metrics (\<open>used_bytes\<close>, \<open>total_bytes\<close>, \<open>ratio\<close>)
  per present layout: the number of emissions is 2 + |devices| + the sum over the
  categories of (1 + 3 * |present layouts|).
\<close>

theorem flatten_emission_count:
  assumes "Data (Allocation s) = Some d" and "Metadata (Allocation s) = Some m"
    and "System (Allocation s) = Some y"
    and "validLabels s" and "range_order (Devices s) kvs"
  shows "\<exists>es. updateBtrfsStats ns kvs (Some s) ch = (ch @ es, None) \<and>
           map (\<lambda>e. fqName (mdesc e)) es =
             [spec_name ns ''device_count'', spec_name ns ''global_rsv_size_bytes'']
             @ replicate (length (Devices s)) (spec_name ns ''device_size'')
             @ categoryMetricNames ns d @ categoryMetricNames ns m @ categoryMetricNames ns y \<and>
           length es = 2 + length (Devices s)
                       + (1 + 3 * length (presentLayouts d))
                       + (1 + 3 * length (presentLayouts m))
                       + (1 + 3 * length (presentLayouts y))"
proof -
  let ?ms = "[deviceCountMetric s, globalRsvSizeMetric s]
             @ map (\<lambda>(n, dev). deviceSizeMetric n dev) kvs
             @ allocationMetrics ''data'' d
             @ allocationMetrics ''metadata'' m
             @ allocationMetrics ''system'' y"
  from assms(5) have "size (mset kvs) = size (mset (Devices s))"
    by (simp add: range_order_def)
  then have len: "length kvs = length (Devices s)"
    by simp
  have "map (\<lambda>e. fqName (mdesc e)) (map (constMetric ns s) ?ms) =
          map (\<lambda>m. fqName (mdesc (constMetric ns s m))) ?ms"
    by (simp add: comp_def)
  also have "\<dots> = [spec_name ns ''device_count'', spec_name ns ''global_rsv_size_bytes'']
             @ replicate (length (Devices s)) (spec_name ns ''device_size'')
             @ categoryMetricNames ns d @ categoryMetricNames ns m @ categoryMetricNames ns y"
    unfolding map_append names_allocationMetrics names_deviceMetrics len
    by (simp add: constMetric_def deviceCountMetric_def globalRsvSizeMetric_def spec_name_def)
  finally have names: "map (\<lambda>e. fqName (mdesc e)) (map (constMetric ns s) ?ms) =
      [spec_name ns ''device_count'', spec_name ns ''global_rsv_size_bytes'']
             @ replicate (length (Devices s)) (spec_name ns ''device_size'')
             @ categoryMetricNames ns d @ categoryMetricNames ns m @ categoryMetricNames ns y" .
  have count: "length (map (constMetric ns s) ?ms) = 2 + length (Devices s)
                       + (1 + 3 * length (presentLayouts d))
                       + (1 + 3 * length (presentLayouts m))
                       + (1 + 3 * length (presentLayouts y))"
    by (simp add: length_allocationMetrics len)
  from run_valid [OF assms, of ns ch] names count show ?thesis
    by (intro exI [of _ "map (constMetric ns s) ?ms"] conjI)
qed

theorem flatten_emission_count_witness:
  "categoriesPresent twoDeviceStats \<and> validLabels twoDeviceStats \<and>
   range_order (Devices twoDeviceStats) [(''sdb'', \<lparr>Size = 200\<rparr>), (''sda'', \<lparr>Size = 100\<rparr>)] \<and>
   (\<exists>es. updateBtrfsStats ''node'' [(''sdb'', \<lparr>Size = 200\<rparr>), (''sda'', \<lparr>Size = 100\<rparr>)]
           (Some twoDeviceStats) [] = (es, None) \<and>
      map (\<lambda>e. fqName (mdesc e)) es =
        [''node_btrfs_device_count'', ''node_btrfs_global_rsv_size_bytes'',
         ''node_btrfs_device_size'', ''node_btrfs_device_size'',
         ''node_btrfs_reserved_bytes'',
         ''node_btrfs_used_bytes'', ''node_btrfs_total_bytes'', ''node_btrfs_ratio'',
         ''node_btrfs_used_bytes'', ''node_btrfs_total_bytes'', ''node_btrfs_ratio'',
         ''node_btrfs_reserved_bytes'', ''node_btrfs_reserved_bytes''] \<and>
      length es = 13)"
  using twoDeviceStats_present(4,5,7)
    flatten_emission_count [OF twoDeviceStats_present(1,2,3,5,7), of "''node''" "[]"]
  by (simp add: twoDeviceStats_def presentLayouts_def layouts_def noLayouts_def
      categoryMetricNames_def spec_name_def)

text \<open>
  On a snapshot whose label is not valid UTF-8 the first call of \<open>MustNewConstMetric\<close>
  panics: nothing is sent, where the count of the claim is 9.
\<close>

theorem flatten_emission_count_counterexample:
  "categoriesPresent badLabelStats \<and>
   range_order (Devices badLabelStats) [(''sda'', \<lparr>Size = 100\<rparr>)] \<and>
   2 + length (Devices badLabelStats)
     + (1 + 3 * length (presentLayouts exampleData))
     + (1 + 3 * length (presentLayouts (noLayouts 0)))
     + (1 + 3 * length (presentLayouts (noLayouts 0))) = 9 \<and>
   updateBtrfsStats ''node'' [(''sda'', \<lparr>Size = 100\<rparr>)] (Some badLabelStats) []
     = ([], Some InvalidConstMetric)"
  by (simp add: badLabelStats_def exampleStats_def exampleData_def noLayouts_def
      categoriesPresent_def range_order_def presentLayouts_def layouts_def
      updateBtrfsStats_def buildMetrics_def getAllocationStats_def Let_def
      deviceCountMetric_def sendMetric_cases inRange_def)

subsection \<open>Order of emissions\<close>

text \<open>The two runs on the snapshot with two devices.\<close>

lemma twoDeviceStats_runs:
  "updateBtrfsStats ns [(''sda'', \<lparr>Size = 100\<rparr>), (''sdb'', \<lparr>Size = 200\<rparr>)] (Some twoDeviceStats) ch =
     (ch @ map (constMetric ns twoDeviceStats)
        ([deviceCountMetric twoDeviceStats, globalRsvSizeMetric twoDeviceStats]
         @ map (\<lambda>(n, dev). deviceSizeMetric n dev) [(''sda'', \<lparr>Size = 100\<rparr>), (''sdb'', \<lparr>Size = 200\<rparr>)]
         @ allocationMetrics ''data'' ((noLayouts 8)\<lparr>
             Single := Some \<lparr>UsedBytes = 1, TotalBytes = 2, Ratio = Float64frombits 0x3FF0000000000000\<rparr>,
             Raid1 := Some \<lparr>UsedBytes = 3, TotalBytes = 4, Ratio = Float64frombits 0x4000000000000000\<rparr>\<rparr>)
         @ allocationMetrics ''metadata'' (noLayouts 0)
         @ allocationMetrics ''system'' (noLayouts 0)), None)"
  "updateBtrfsStats ns [(''sdb'', \<lparr>Size = 200\<rparr>), (''sda'', \<lparr>Size = 100\<rparr>)] (Some twoDeviceStats) ch =
     (ch @ map (constMetric ns twoDeviceStats)
        ([deviceCountMetric twoDeviceStats, globalRsvSizeMetric twoDeviceStats]
         @ map (\<lambda>(n, dev). deviceSizeMetric n dev) [(''sdb'', \<lparr>Size = 200\<rparr>), (''sda'', \<lparr>Size = 100\<rparr>)]
         @ allocationMetrics ''data'' ((noLayouts 8)\<lparr>
             Single := Some \<lparr>UsedBytes = 1, TotalBytes = 2, Ratio = Float64frombits 0x3FF0000000000000\<rparr>,
             Raid1 := Some \<lparr>UsedBytes = 3, TotalBytes = 4, Ratio = Float64frombits 0x4000000000000000\<rparr>\<rparr>)
         @ allocationMetrics ''metadata'' (noLayouts 0)
         @ allocationMetrics ''system'' (noLayouts 0)), None)"
  by (rule run_valid [OF twoDeviceStats_present(1,2,3,5,6)],
      rule run_valid [OF twoDeviceStats_present(1,2,3,5,7)])

text \<open>
  Claim C2, as the code has it. For every snapshot with its three category records
  whose label, unique id and device names are valid UTF-8, and every sequence \<open>kvs\<close> in
  which \<open>range\<close> visits the device map, \<open>updateBtrfsStats\<close> returns and the emissions
  are, in this order: \<open>device_count\<close>, \<open>global_rsv_size_bytes\<close>, one \<open>device_size\<close> per
  device in the order \<open>kvs\<close> of the visit (a permutation of the entries of the map), then
  the categories \<open>data\<close>, \<open>metadata\<close>, \<open>system\<close>, each with \<open>reserved_bytes\<close> followed by
  its present layouts in the order single, dup, raid0, raid1, raid5, raid6, raid10:
  the sequence \<open>spec_flatten ns kvs s\<close>.
\<close>

theorem flatten_emission_order:
  assumes "categoriesPresent s" and "validLabels s" and "range_order (Devices s) kvs"
  shows "\<exists>es. updateBtrfsStats ns kvs (Some s) ch = (ch @ es, None) \<and>
           map emission es = spec_flatten ns kvs s \<and>
           mset kvs = mset (Devices s)"
proof -
  from assms(1) obtain d m y where
    p: "Data (Allocation s) = Some d" "Metadata (Allocation s) = Some m"
       "System (Allocation s) = Some y"
    by (auto simp: categoriesPresent_def)
  let ?ms = "[deviceCountMetric s, globalRsvSizeMetric s]
           @ map (\<lambda>(n, dev). deviceSizeMetric n dev) kvs
           @ allocationMetrics ''data'' d
           @ allocationMetrics ''metadata'' m
           @ allocationMetrics ''system'' y"
  have "map emission (map (constMetric ns s) ?ms) = spec_flatten ns kvs s"
    unfolding map_emission_constMetric by (rule emit_buildMetrics [OF p])
  with run_valid [OF p assms(2,3), of ns ch] assms(3) show ?thesis
    unfolding range_order_def by blast
qed

theorem flatten_emission_order_witness:
  "categoriesPresent exampleStats \<and> validLabels exampleStats \<and>
   range_order (Devices exampleStats) [(''sda'', \<lparr>Size = 100\<rparr>)] \<and>
   (\<exists>es. updateBtrfsStats ''node'' [(''sda'', \<lparr>Size = 100\<rparr>)] (Some exampleStats) [] = (es, None) \<and>
      map emission es =
        [(''node_btrfs_device_count'', [''label'', ''uuid''], [''vol1'', ''abc''], float64 1),
         (''node_btrfs_global_rsv_size_bytes'', [''label'', ''uuid''], [''vol1'', ''abc''], float64 50),
         (''node_btrfs_device_size'', [''label'', ''uuid'', ''device''], [''vol1'', ''abc'', ''sda''], float64 100),
         (''node_btrfs_reserved_bytes'', [''label'', ''uuid'', ''type''], [''vol1'', ''abc'', ''data''], float64 10),
         (''node_btrfs_used_bytes'', [''label'', ''uuid'', ''type'', ''mode''], [''vol1'', ''abc'', ''data'', ''single''], float64 5),
         (''node_btrfs_total_bytes'', [''label'', ''uuid'', ''type'', ''mode''], [''vol1'', ''abc'', ''data'', ''single''], float64 20),
         (''node_btrfs_ratio'', [''label'', ''uuid'', ''type'', ''mode''], [''vol1'', ''abc'', ''data'', ''single''], Float64frombits 0x3FD0000000000000),
         (''node_btrfs_reserved_bytes'', [''label'', ''uuid'', ''type''], [''vol1'', ''abc'', ''metadata''], float64 0),
         (''node_btrfs_reserved_bytes'', [''label'', ''uuid'', ''type''], [''vol1'', ''abc'', ''system''], float64 0)])"
  using exampleStats_present(1,5,6)
    flatten_emission_order [OF exampleStats_present(1,5,6), of "''node''" "[]"]
  by (simp add: spec_flatten_def exampleStats_def exampleData_def exampleSingle_def
      spec_device_def spec_name_def categories_def spec_category_def presentLayouts_def
      layouts_def noLayouts_def spec_layout_def Let_def)

text \<open>
  The order of the \<open>device_size\<close> metrics is not a function of the snapshot. The map of
  \<open>twoDeviceStats\<close> has the entries \<open>sda\<close> and \<open>sdb\<close>; both runs return, the one that
  visits \<open>sda\<close> first with the sequence of the specification over the entries as
  listed, the one that visits \<open>sdb\<close> first with another one, with other label values.
\<close>

theorem flatten_device_order_counterexample:
  "categoriesPresent twoDeviceStats \<and> validLabels twoDeviceStats \<and>
   range_order (Devices twoDeviceStats) [(''sda'', \<lparr>Size = 100\<rparr>), (''sdb'', \<lparr>Size = 200\<rparr>)] \<and>
   range_order (Devices twoDeviceStats) [(''sdb'', \<lparr>Size = 200\<rparr>), (''sda'', \<lparr>Size = 100\<rparr>)] \<and>
   snd (updateBtrfsStats ''node'' [(''sda'', \<lparr>Size = 100\<rparr>), (''sdb'', \<lparr>Size = 200\<rparr>)] (Some twoDeviceStats) []) = None \<and>
   snd (updateBtrfsStats ''node'' [(''sdb'', \<lparr>Size = 200\<rparr>), (''sda'', \<lparr>Size = 100\<rparr>)] (Some twoDeviceStats) []) = None \<and>
   map emission (fst (updateBtrfsStats ''node'' [(''sda'', \<lparr>Size = 100\<rparr>), (''sdb'', \<lparr>Size = 200\<rparr>)] (Some twoDeviceStats) []))
     = spec_flatten ''node'' (Devices twoDeviceStats) twoDeviceStats \<and>
   map labelValues (fst (updateBtrfsStats ''node'' [(''sdb'', \<lparr>Size = 200\<rparr>), (''sda'', \<lparr>Size = 100\<rparr>)] (Some twoDeviceStats) []))
     \<noteq> map (\<lambda>e. fst (snd (snd e))) (spec_flatten ''node'' (Devices twoDeviceStats) twoDeviceStats)"
  using twoDeviceStats_present(4,5,6,7)
  by (simp add: twoDeviceStats_runs)
    (simp add: twoDeviceStats_def allocationMetrics_def layouts_def getLayoutStats_def
      noLayouts_def constMetric_def emission_def
      spec_flatten_def spec_device_def spec_name_def categories_def reservedMetric_def
      deviceSizeMetric_def deviceCountMetric_def globalRsvSizeMetric_def spec_category_def
      presentLayouts_def spec_layout_def Let_def)

subsection \<open>Flattening twice\<close>

text \<open>
  Claim C3, as the code has it. Two runs of \<open>updateBtrfsStats\<close> on the same snapshot,
  with its three category records and with label, unique id and device names that are
  valid UTF-8, both return and send the same metrics (names, labels, label values and
  values) the same number of times; the two sequences agree on the first two emissions
  and on everything after the \<open>device_size\<close> block, and they are identical when both
  runs visit the device map in the same order. Inside the \<open>device_size\<close> block each run
  follows its own order of visit.
\<close>

theorem flatten_twice:
  assumes "categoriesPresent s" and "validLabels s"
    and "range_order (Devices s) kvs1" and "range_order (Devices s) kvs2"
  shows "\<exists>es1 es2.
           updateBtrfsStats ns kvs1 (Some s) ch = (ch @ es1, None) \<and>
           updateBtrfsStats ns kvs2 (Some s) ch = (ch @ es2, None) \<and>
           mset es1 = mset es2 \<and>
           take 2 es1 = take 2 es2 \<and>
           drop (2 + length (Devices s)) es1 = drop (2 + length (Devices s)) es2 \<and>
           (kvs1 = kvs2 \<longrightarrow> es1 = es2)"
proof -
  from assms(1) obtain d m y where
    p: "Data (Allocation s) = Some d" "Metadata (Allocation s) = Some m"
       "System (Allocation s) = Some y"
    by (auto simp: categoriesPresent_def)
  from assms(3,4) have ms: "mset kvs1 = mset kvs2" and "mset kvs1 = mset (Devices s)"
    by (simp_all add: range_order_def)
  then have "size (mset kvs1) = size (mset (Devices s))" "size (mset kvs1) = size (mset kvs2)"
    by simp_all
  then have len: "length kvs1 = length (Devices s)" "length kvs2 = length (Devices s)"
    by simp_all
  show ?thesis
    by (simp add: run_valid [OF p assms(2,3)] run_valid [OF p assms(2,4)] len ms)
qed

theorem flatten_twice_witness:
  "categoriesPresent twoDeviceStats \<and> validLabels twoDeviceStats \<and>
   range_order (Devices twoDeviceStats) [(''sda'', \<lparr>Size = 100\<rparr>), (''sdb'', \<lparr>Size = 200\<rparr>)] \<and>
   range_order (Devices twoDeviceStats) [(''sdb'', \<lparr>Size = 200\<rparr>), (''sda'', \<lparr>Size = 100\<rparr>)] \<and>
   (\<exists>es1 es2.
      updateBtrfsStats ''node'' [(''sda'', \<lparr>Size = 100\<rparr>), (''sdb'', \<lparr>Size = 200\<rparr>)] (Some twoDeviceStats) [] = (es1, None) \<and>
      updateBtrfsStats ''node'' [(''sdb'', \<lparr>Size = 200\<rparr>), (''sda'', \<lparr>Size = 100\<rparr>)] (Some twoDeviceStats) [] = (es2, None) \<and>
      mset es1 = mset es2 \<and> take 2 es1 = take 2 es2 \<and> drop 4 es1 = drop 4 es2)"
proof -
  have l: "2 + length (Devices twoDeviceStats) = 4"
    by (simp add: twoDeviceStats_def)
  from flatten_twice [OF twoDeviceStats_present(4,5,6,7), of "''node''" "[]"]
  have "\<exists>es1 es2.
      updateBtrfsStats ''node'' [(''sda'', \<lparr>Size = 100\<rparr>), (''sdb'', \<lparr>Size = 200\<rparr>)] (Some twoDeviceStats) [] = (es1, None) \<and>
      updateBtrfsStats ''node'' [(''sdb'', \<lparr>Size = 200\<rparr>), (''sda'', \<lparr>Size = 100\<rparr>)] (Some twoDeviceStats) [] = (es2, None) \<and>
      mset es1 = mset es2 \<and> take 2 es1 = take 2 es2 \<and> drop 4 es1 = drop 4 es2"
    unfolding l append_Nil by (elim exE conjE) (intro exI conjI)
  with twoDeviceStats_present(4,5,6,7) show ?thesis
    by (intro conjI)
qed

text \<open>
  Two runs on \<open>twoDeviceStats\<close>, one visiting \<open>sda\<close> first and one visiting \<open>sdb\<close>
  first, both return and send different sequences: already the label values differ,
  at the third emission.
\<close>

theorem flatten_twice_counterexample:
  "categoriesPresent twoDeviceStats \<and> validLabels twoDeviceStats \<and>
   range_order (Devices twoDeviceStats) [(''sda'', \<lparr>Size = 100\<rparr>), (''sdb'', \<lparr>Size = 200\<rparr>)] \<and>
   range_order (Devices twoDeviceStats) [(''sdb'', \<lparr>Size = 200\<rparr>), (''sda'', \<lparr>Size = 100\<rparr>)] \<and>
   snd (updateBtrfsStats ''node'' [(''sda'', \<lparr>Size = 100\<rparr>), (''sdb'', \<lparr>Size = 200\<rparr>)] (Some twoDeviceStats) []) = None \<and>
   snd (updateBtrfsStats ''node'' [(''sdb'', \<lparr>Size = 200\<rparr>), (''sda'', \<lparr>Size = 100\<rparr>)] (Some twoDeviceStats) []) = None \<and>
   map labelValues
     (fst (updateBtrfsStats ''node'' [(''sda'', \<lparr>Size = 100\<rparr>), (''sdb'', \<lparr>Size = 200\<rparr>)] (Some twoDeviceStats) []))
     \<noteq> map labelValues
     (fst (updateBtrfsStats ''node'' [(''sdb'', \<lparr>Size = 200\<rparr>), (''sda'', \<lparr>Size = 100\<rparr>)] (Some twoDeviceStats) []))"
  using twoDeviceStats_present(4,5,6,7)
  by (simp add: twoDeviceStats_runs) (simp add: constMetric_def deviceSizeMetric_def)

subsection \<open>The shape of a run\<close>


lemma run_shape:
  assumes "Data (Allocation s) = Some d" "Metadata (Allocation s) = Some m"
    "System (Allocation s) = Some y"
    and "ms = [deviceCountMetric s, globalRsvSizeMetric s]
             @ map (\<lambda>(n, dev). deviceSizeMetric n dev) kvs
             @ allocationMetrics ''data'' d
             @ allocationMetrics ''metadata'' m
             @ allocationMetrics ''system'' y"
  shows "\<exists>k\<le>length ms.
     updateBtrfsStats ns kvs (Some s) ch =
       (ch @ map (constMetric ns s) (take k ms),
        if k = length ms then None else Some InvalidConstMetric) \<and>
     (validLabels s \<and> range_order (Devices s) kvs \<longrightarrow> k = length ms)"
proof -
  have b: "buildMetrics kvs s = Inr ms"
    unfolding assms(4) by (rule buildMetrics_present [OF assms(1-3)])
  from run_prefix [OF b, of ns ch] obtain k where k: "k \<le> length ms"
    "updateBtrfsStats ns kvs (Some s) ch =
       (ch @ map (constMetric ns s) (take k ms),
        if k = length ms then None else Some InvalidConstMetric)"
    by blast
  have "k = length ms" if "validLabels s \<and> range_order (Devices s) kvs"
  proof -
    from that run_valid [OF assms(1-3), of kvs ns ch]
    have "snd (updateBtrfsStats ns kvs (Some s) ch) = None"
      by simp
    with k(2) show ?thesis
      by (simp split: if_splits)
  qed
  with k show ?thesis
    by blast
qed

lemma filter_buildMetrics:
  assumes "Data (Allocation s) = Some d" "Metadata (Allocation s) = Some m"
    "System (Allocation s) = Some y"
    and "(a, Some r) \<in> set (categories (Allocation s))" and "(l, x) \<in> set (layouts r)"
  shows "filter (\<lambda>m. extraLabel m = [''type'', ''mode''] \<and> extraLabelValue m = [a, l])
           ([deviceCountMetric s, globalRsvSizeMetric s]
             @ map (\<lambda>(n, dev). deviceSizeMetric n dev) kvs
             @ allocationMetrics ''data'' d
             @ allocationMetrics ''metadata'' m
             @ allocationMetrics ''system'' y) = getLayoutStats a l x"
proof -
  from assms(4) have "a = ''data'' \<and> r = d \<or> a = ''metadata'' \<and> r = m \<or> a = ''system'' \<and> r = y"
    by (auto simp: categories_def assms(1-3))
  then show ?thesis
    using assms(5)
    by (auto simp: filter_deviceMetrics filter_allocationMetrics_other filter_allocationMetrics_same
        deviceCountMetric_def globalRsvSizeMetric_def)
qed

lemma filter_take_empty: "filter P xs = [] \<Longrightarrow> filter P (take k xs) = []"
  by (auto simp: filter_empty_conv dest: in_set_takeD)

lemma exampleStats_run:
  "updateBtrfsStats ns [(''sda'', \<lparr>Size = 100\<rparr>)] (Some exampleStats) ch =
     (ch @ map (constMetric ns exampleStats)
        ([deviceCountMetric exampleStats, globalRsvSizeMetric exampleStats]
         @ map (\<lambda>(n, dev). deviceSizeMetric n dev) [(''sda'', \<lparr>Size = 100\<rparr>)]
         @ allocationMetrics ''data'' exampleData
         @ allocationMetrics ''metadata'' (noLayouts 0)
         @ allocationMetrics ''system'' (noLayouts 0)), None)"
  by (rule run_valid [OF exampleStats_present(2-6)])

lemma exampleStats_length:
  assumes "updateBtrfsStats ns [(''sda'', \<lparr>Size = 100\<rparr>)] (Some exampleStats) [] = (es, p)"
  shows "length es = 9"
proof -
  from assms have e: "es = map (constMetric ns exampleStats)
        ([deviceCountMetric exampleStats, globalRsvSizeMetric exampleStats]
         @ map (\<lambda>(n, dev). deviceSizeMetric n dev) [(''sda'', \<lparr>Size = 100\<rparr>)]
         @ allocationMetrics ''data'' exampleData
         @ allocationMetrics ''metadata'' (noLayouts 0)
         @ allocationMetrics ''system'' (noLayouts 0))"
    by (simp add: exampleStats_run)
  show ?thesis
    unfolding e
    by (simp add: length_allocationMetrics presentLayouts_def layouts_def exampleData_def noLayouts_def)
qed

text \<open>The run on the snapshot whose label is not valid UTF-8.\<close>

lemma badLabelStats_run:
  "updateBtrfsStats ns [(''sda'', \<lparr>Size = 100\<rparr>)] (Some badLabelStats) ch = (ch, Some InvalidConstMetric)"
  by (simp add: badLabelStats_def exampleStats_def updateBtrfsStats_def buildMetrics_def
      getAllocationStats_def Let_def sendMetric_cases inRange_def)

lemma badLabelStats_present:
  "categoriesPresent badLabelStats"
  "range_order (Devices badLabelStats) [(''sda'', \<lparr>Size = 100\<rparr>)]"
  "\<not> validLabels badLabelStats"
  "Data (Allocation badLabelStats) = Some exampleData"
  by (simp_all add: badLabelStats_def exampleStats_def categoriesPresent_def range_order_def
      validLabels_def inRange_def)

subsection \<open>Layouts\<close>

text \<open>
  Claim C4, as the code has it. For every category \<open>a\<close> with record \<open>r\<close> and every one of
  the seven layout names \<open>l\<close> with the field \<open>x\<close> of \<open>r\<close> that belongs to it: when \<open>x\<close> is
  absent, \<open>updateBtrfsStats\<close> sends no metric for that layout, however the call ends;
  when \<open>x\<close> holds a record and the label, unique id and device names of the snapshot are
  valid UTF-8, the call returns and has sent exactly three, \<open>used_bytes\<close>,
  \<open>total_bytes\<close> and \<open>ratio\<close>, each with the extra labels \<open>type\<close> = \<open>a\<close> and
  \<open>mode\<close> = \<open>l\<close> and with the values of the fields \<open>UsedBytes\<close>, \<open>TotalBytes\<close> and
  \<open>Ratio\<close>.
\<close>

theorem layout_emissions:
  assumes "categoriesPresent s"
    and "(a, Some r) \<in> set (categories (Allocation s))"
    and "(l, x) \<in> set (layouts r)"
  shows "\<exists>es p. updateBtrfsStats ns kvs (Some s) ch = (ch @ es, p) \<and>
           (x = None \<longrightarrow> filter (forLayout a l) es = []) \<and>
           (validLabels s \<and> range_order (Devices s) kvs \<longrightarrow>
              p = None \<and>
              filter (forLayout a l) es =
                (case x of
                   None \<Rightarrow> []
                 | Some u \<Rightarrow>
                  [\<lparr>mdesc = \<lparr>fqName = ns @ ''_btrfs_used_bytes'',
                             help = ''Amount of used space by a layout/data type'',
                             variableLabels = [''label'', ''uuid'', ''type'', ''mode''],
                             constLabels = []\<rparr>,
                    valType = GaugeValue, mval = float64 (UsedBytes u),
                    labelValues = [Label s, UUID s, a, l]\<rparr>,
                   \<lparr>mdesc = \<lparr>fqName = ns @ ''_btrfs_total_bytes'',
                             help = ''Amount of space allocated for a layout/data type'',
                             variableLabels = [''label'', ''uuid'', ''type'', ''mode''],
                             constLabels = []\<rparr>,
                    valType = GaugeValue, mval = float64 (TotalBytes u),
                    labelValues = [Label s, UUID s, a, l]\<rparr>,
                   \<lparr>mdesc = \<lparr>fqName = ns @ ''_btrfs_ratio'',
                             help = ''Data allocation ratio for a layout/data type'',
                             variableLabels = [''label'', ''uuid'', ''type'', ''mode''],
                             constLabels = []\<rparr>,
                    valType = GaugeValue, mval = Ratio u,
                    labelValues = [Label s, UUID s, a, l]\<rparr>]))"
    (is "\<exists>es p. _ = _ \<and> _ \<and> (_ \<longrightarrow> _ \<and> _ = ?rhs)")
proof -
  from assms(1) obtain d m y where
    p: "Data (Allocation s) = Some d" "Metadata (Allocation s) = Some m"
       "System (Allocation s) = Some y"
    by (auto simp: categoriesPresent_def)
  define ms where "ms = [deviceCountMetric s, globalRsvSizeMetric s]
           @ map (\<lambda>(n, dev). deviceSizeMetric n dev) kvs
           @ allocationMetrics ''data'' d
           @ allocationMetrics ''metadata'' m
           @ allocationMetrics ''system'' y"
  let ?Q = "\<lambda>m. extraLabel m = [''type'', ''mode''] \<and> extraLabelValue m = [a, l]"
  have f: "filter ?Q ms = getLayoutStats a l x"
    unfolding ms_def by (rule filter_buildMetrics [OF p assms(2,3)])
  from run_shape [OF p ms_def, of ns ch] obtain k where k: "k \<le> length ms"
    "updateBtrfsStats ns kvs (Some s) ch =
       (ch @ map (constMetric ns s) (take k ms),
        if k = length ms then None else Some InvalidConstMetric)"
    "validLabels s \<and> range_order (Devices s) kvs \<longrightarrow> k = length ms"
    by blast
  have absent: "filter (forLayout a l) (map (constMetric ns s) (take k ms)) = []" if "x = None"
  proof -
    from that f have "filter ?Q ms = []"
      by (simp add: getLayoutStats_def)
    then have "filter ?Q (take k ms) = []"
      by (rule filter_take_empty)
    then show ?thesis
      by (simp only: filter_constMetric list.map)
  qed
  have full: "filter (forLayout a l) (map (constMetric ns s) (take k ms)) = ?rhs" if "k = length ms"
  proof -
    from that have "filter (forLayout a l) (map (constMetric ns s) (take k ms)) =
        map (constMetric ns s) (filter ?Q ms)"
      by (simp only: filter_constMetric take_all order_refl)
    also have "\<dots> = map (constMetric ns s) (getLayoutStats a l x)"
      by (simp only: f)
    also have "\<dots> = ?rhs"
      by (simp add: getLayoutStats_def constMetric_def split: option.split)
    finally show ?thesis .
  qed
  show ?thesis
    apply (rule exI [of _ "map (constMetric ns s) (take k ms)"])
    apply (rule exI [of _ "if k = length ms then None else Some InvalidConstMetric"])
    using k(2,3) absent full apply simp
    done
qed


theorem layout_emissions_witness:
  "categoriesPresent exampleStats \<and> validLabels exampleStats \<and>
   range_order (Devices exampleStats) [(''sda'', \<lparr>Size = 100\<rparr>)] \<and>
   (''data'', Some exampleData) \<in> set (categories (Allocation exampleStats)) \<and>
   (''single'', Some exampleSingle) \<in> set (layouts exampleData) \<and>
   (''dup'', None) \<in> set (layouts exampleData) \<and>
   (\<exists>es. updateBtrfsStats ''node'' [(''sda'', \<lparr>Size = 100\<rparr>)] (Some exampleStats) [] = (es, None) \<and>
      filter (forLayout ''data'' ''single'') es =
        [\<lparr>mdesc = \<lparr>fqName = ''node_btrfs_used_bytes'',
                   help = ''Amount of used space by a layout/data type'',
                   variableLabels = [''label'', ''uuid'', ''type'', ''mode''], constLabels = []\<rparr>,
          valType = GaugeValue, mval = float64 5,
          labelValues = [''vol1'', ''abc'', ''data'', ''single'']\<rparr>,
         \<lparr>mdesc = \<lparr>fqName = ''node_btrfs_total_bytes'',
                   help = ''Amount of space allocated for a layout/data type'',
                   variableLabels = [''label'', ''uuid'', ''type'', ''mode''], constLabels = []\<rparr>,
          valType = GaugeValue, mval = float64 20,
          labelValues = [''vol1'', ''abc'', ''data'', ''single'']\<rparr>,
         \<lparr>mdesc = \<lparr>fqName = ''node_btrfs_ratio'',
                   help = ''Data allocation ratio for a layout/data type'',
                   variableLabels = [''label'', ''uuid'', ''type'', ''mode''], constLabels = []\<rparr>,
          valType = GaugeValue, mval = Float64frombits 0x3FD0000000000000,
          labelValues = [''vol1'', ''abc'', ''data'', ''single'']\<rparr>]) \<and>
   (\<exists>es. updateBtrfsStats ''node'' [(''sda'', \<lparr>Size = 100\<rparr>)] (Some exampleStats) [] = (es, None) \<and>
      filter (forLayout ''data'' ''dup'') es = [])"
proof -
  note c = exampleStats_present(1) and v = exampleStats_present(5) and r = exampleStats_present(6)
  have a: "(''data'', Some exampleData) \<in> set (categories (Allocation exampleStats))"
    by (simp add: categories_def exampleStats_def)
  have l1: "(''single'', Some exampleSingle) \<in> set (layouts exampleData)"
    and l2: "(''dup'', None) \<in> set (layouts exampleData)"
    by (simp_all add: layouts_def exampleData_def noLayouts_def)
  from layout_emissions [OF c a l1, of "''node''" "[(''sda'', \<lparr>Size = 100\<rparr>)]" "[]"] v r
  have 1: "\<exists>es. updateBtrfsStats ''node'' [(''sda'', \<lparr>Size = 100\<rparr>)] (Some exampleStats) [] = (es, None) \<and>
      filter (forLayout ''data'' ''single'') es =
        [\<lparr>mdesc = \<lparr>fqName = ''node_btrfs_used_bytes'',
                   help = ''Amount of used space by a layout/data type'',
                   variableLabels = [''label'', ''uuid'', ''type'', ''mode''], constLabels = []\<rparr>,
          valType = GaugeValue, mval = float64 5,
          labelValues = [''vol1'', ''abc'', ''data'', ''single'']\<rparr>,
         \<lparr>mdesc = \<lparr>fqName = ''node_btrfs_total_bytes'',
                   help = ''Amount of space allocated for a layout/data type'',
                   variableLabels = [''label'', ''uuid'', ''type'', ''mode''], constLabels = []\<rparr>,
          valType = GaugeValue, mval = float64 20,
          labelValues = [''vol1'', ''abc'', ''data'', ''single'']\<rparr>,
         \<lparr>mdesc = \<lparr>fqName = ''node_btrfs_ratio'',
                   help = ''Data allocation ratio for a layout/data type'',
                   variableLabels = [''label'', ''uuid'', ''type'', ''mode''], constLabels = []\<rparr>,
          valType = GaugeValue, mval = Float64frombits 0x3FD0000000000000,
          labelValues = [''vol1'', ''abc'', ''data'', ''single'']\<rparr>]"
    by (auto simp: exampleStats_def exampleSingle_def)
  from layout_emissions [OF c a l2, of "''node''" "[(''sda'', \<lparr>Size = 100\<rparr>)]" "[]"] v r
  have 2: "\<exists>es. updateBtrfsStats ''node'' [(''sda'', \<lparr>Size = 100\<rparr>)] (Some exampleStats) [] = (es, None) \<and>
      filter (forLayout ''data'' ''dup'') es = []"
    by auto
  from c v r a l1 l2 1 2 show ?thesis
    by (intro conjI)
qed

text \<open>
  On the snapshot whose label is not valid UTF-8 the layout \<open>single\<close> of \<open>data\<close> is
  present, the call panics at the first metric and nothing is sent for the layout.
\<close>

theorem layout_emissions_counterexample:
  "categoriesPresent badLabelStats \<and>
   range_order (Devices badLabelStats) [(''sda'', \<lparr>Size = 100\<rparr>)] \<and>
   (''data'', Some exampleData) \<in> set (categories (Allocation badLabelStats)) \<and>
   (''single'', Some exampleSingle) \<in> set (layouts exampleData) \<and>
   snd (updateBtrfsStats ''node'' [(''sda'', \<lparr>Size = 100\<rparr>)] (Some badLabelStats) []) = Some InvalidConstMetric \<and>
   filter (forLayout ''data'' ''single'')
     (fst (updateBtrfsStats ''node'' [(''sda'', \<lparr>Size = 100\<rparr>)] (Some badLabelStats) [])) = []"
  using badLabelStats_present(1,2)
  by (simp add: badLabelStats_run categories_def badLabelStats_present(4) layouts_def
      exampleData_def noLayouts_def)

subsection \<open>Base labels\<close>

text \<open>
  Claim C5. Every metric that \<open>updateBtrfsStats\<close> sends, whether the call returns or
  panics later, has the label names \<open>label\<close> and \<open>uuid\<close> first, with the values of the
  fields \<open>Label\<close> and \<open>UUID\<close> of the snapshot, whatever the metric; the extra label names
  and the extra label values of the entry of \<open>metrics\<close> it was built from follow them,
  in the order of that entry. When the label, unique id and device names are valid
  UTF-8 the call returns and every entry of \<open>metrics\<close> has been sent.
\<close>

theorem base_labels:
  assumes "categoriesPresent s"
  shows "\<exists>ms es p. buildMetrics kvs s = Inr ms \<and>
           updateBtrfsStats ns kvs (Some s) ch = (ch @ es, p) \<and>
           length es \<le> length ms \<and>
           (\<forall>i<length es.
              variableLabels (mdesc (es ! i)) = ''label'' # ''uuid'' # extraLabel (ms ! i) \<and>
              labelValues (es ! i) = Label s # UUID s # extraLabelValue (ms ! i)) \<and>
           (validLabels s \<and> range_order (Devices s) kvs \<longrightarrow> p = None \<and> length es = length ms)"
proof -
  from assms obtain d m y where
    p: "Data (Allocation s) = Some d" "Metadata (Allocation s) = Some m"
       "System (Allocation s) = Some y"
    by (auto simp: categoriesPresent_def)
  define ms where "ms = [deviceCountMetric s, globalRsvSizeMetric s]
           @ map (\<lambda>(n, dev). deviceSizeMetric n dev) kvs
           @ allocationMetrics ''data'' d
           @ allocationMetrics ''metadata'' m
           @ allocationMetrics ''system'' y"
  have b: "buildMetrics kvs s = Inr ms"
    unfolding ms_def by (rule buildMetrics_present [OF p])
  from run_shape [OF p ms_def, of ns ch] obtain k where k: "k \<le> length ms"
    "updateBtrfsStats ns kvs (Some s) ch =
       (ch @ map (constMetric ns s) (take k ms),
        if k = length ms then None else Some InvalidConstMetric)"
    "validLabels s \<and> range_order (Devices s) kvs \<longrightarrow> k = length ms"
    by blast
  show ?thesis
    apply (rule exI [of _ ms])
    apply (rule exI [of _ "map (constMetric ns s) (take k ms)"])
    apply (rule exI [of _ "if k = length ms then None else Some InvalidConstMetric"])
    using b k apply (simp add: constMetric_def)
    done
qed

theorem base_labels_witness:
  "categoriesPresent exampleStats \<and> validLabels exampleStats \<and>
   range_order (Devices exampleStats) [(''sda'', \<lparr>Size = 100\<rparr>)] \<and>
   (\<exists>es. updateBtrfsStats ''node'' [(''sda'', \<lparr>Size = 100\<rparr>)] (Some exampleStats) [] = (es, None) \<and>
      length es = 9 \<and>
      list_all (\<lambda>e. take 2 (variableLabels (mdesc e)) = [''label'', ''uuid''] \<and>
                     take 2 (labelValues e) = [''vol1'', ''abc'']) es)"
proof -
  note c = exampleStats_present(1) and v = exampleStats_present(5) and r = exampleStats_present(6)
  from base_labels [OF c, of "[(''sda'', \<lparr>Size = 100\<rparr>)]" "''node''" "[]"]
  obtain ms es p where h0:
    "buildMetrics [(''sda'', \<lparr>Size = 100\<rparr>)] exampleStats = Inr ms \<and>
     updateBtrfsStats ''node'' [(''sda'', \<lparr>Size = 100\<rparr>)] (Some exampleStats) [] = ([] @ es, p) \<and>
     length es \<le> length ms \<and>
     (\<forall>i<length es.
        variableLabels (mdesc (es ! i)) = ''label'' # ''uuid'' # extraLabel (ms ! i) \<and>
        labelValues (es ! i) = Label exampleStats # UUID exampleStats # extraLabelValue (ms ! i)) \<and>
     (validLabels exampleStats \<and> range_order (Devices exampleStats) [(''sda'', \<lparr>Size = 100\<rparr>)]
       \<longrightarrow> p = None \<and> length es = length ms)"
    by (elim exE)
  note h = h0 [THEN conjunct2, THEN conjunct1]
    h0 [THEN conjunct2, THEN conjunct2, THEN conjunct2, THEN conjunct1]
    h0 [THEN conjunct2, THEN conjunct2, THEN conjunct2, THEN conjunct2]
  from h(3) v r have "p = None"
    by simp
  with h(1) have run: "updateBtrfsStats ''node'' [(''sda'', \<lparr>Size = 100\<rparr>)] (Some exampleStats) [] = (es, None)"
    by simp
  note len = exampleStats_length [OF run]
  from h(2) have la: "list_all (\<lambda>e. take 2 (variableLabels (mdesc e)) = [''label'', ''uuid''] \<and>
                     take 2 (labelValues e) = [''vol1'', ''abc'']) es"
    by (simp add: list_all_length exampleStats_def)
  show ?thesis
    apply (intro conjI c v r)
    apply (rule exI [of _ es])
    apply (simp only: run len la)
    done
qed

subsection \<open>Label names and label values\<close>

text \<open>
  Claim C7. For every metric that \<open>updateBtrfsStats\<close> sends, whether the call returns or
  panics later, the list of label values is as long as the list of label names, and
  the value at position \<open>i\<close> is the one meant for the name at position \<open>i\<close>: \<open>label\<close> and
  \<open>uuid\<close> are bound to the label and the unique id of the snapshot, \<open>device\<close> to the
  name of a visited device, \<open>type\<close> to a category name and \<open>mode\<close> to a layout name.
  When the label, unique id and device names are valid UTF-8 the call returns.
\<close>

theorem label_values_align:
  assumes "categoriesPresent s"
  shows "\<exists>es p. updateBtrfsStats ns kvs (Some s) ch = (ch @ es, p) \<and>
           (\<forall>e\<in>set es.
              length (labelValues e) = length (variableLabels (mdesc e)) \<and>
              set (zip (variableLabels (mdesc e)) (labelValues e))
                \<subseteq> {(''label'', Label s), (''uuid'', UUID s)}
                  \<union> ({''device''} \<times> fst ` set kvs
                     \<union> {''type''} \<times> set categoryNames
                     \<union> {''mode''} \<times> set layoutNames)) \<and>
           (validLabels s \<and> range_order (Devices s) kvs \<longrightarrow> p = None)"
proof -
  define B where "B = {''device''} \<times> fst ` set kvs \<union> {''type''} \<times> set categoryNames
            \<union> {''mode''} \<times> set layoutNames"
  define good where "good = (\<lambda>m::btrfsMetric. length (extraLabelValue m) = length (extraLabel m) \<and>
                   set (zip (extraLabel m) (extraLabelValue m)) \<subseteq> B)"
  define sent where "sent = (\<lambda>e::ConstMetric. length (labelValues e) = length (variableLabels (mdesc e)) \<and>
      set (zip (variableLabels (mdesc e)) (labelValues e))
        \<subseteq> {(''label'', Label s), (''uuid'', UUID s)} \<union> B)"
  from assms obtain d m y where
    p: "Data (Allocation s) = Some d" "Metadata (Allocation s) = Some m"
       "System (Allocation s) = Some y"
    by (auto simp: categoriesPresent_def)
  define ms where "ms = [deviceCountMetric s, globalRsvSizeMetric s]
           @ map (\<lambda>(n, dev). deviceSizeMetric n dev) kvs
           @ allocationMetrics ''data'' d
           @ allocationMetrics ''metadata'' m
           @ allocationMetrics ''system'' y"
  have head: "good (deviceCountMetric s)" "good (globalRsvSizeMetric s)"
    by (simp_all add: good_def deviceCountMetric_def globalRsvSizeMetric_def)
  have devs: "good x" if "x \<in> set (map (\<lambda>(n, dev). deviceSizeMetric n dev) kvs)" for x
    using that by (force simp: good_def B_def deviceSizeMetric_def)
  have n: "''data'' \<in> set categoryNames" "''metadata'' \<in> set categoryNames"
    "''system'' \<in> set categoryNames"
    by (simp_all add: categoryNames_def)
  have cats: "good x" if "a \<in> set categoryNames" "x \<in> set (allocationMetrics a r)" for x a r
    unfolding good_def B_def by (rule aligned_allocationMetrics [OF that])
  have all: "good x" if "x \<in> set ms" for x
    using that head devs cats [OF n(1)] cats [OF n(2)] cats [OF n(3)]
    unfolding ms_def set_append set_simps by blast
  have send: "sent (constMetric ns s x)" if "good x" for x
    using that by (auto simp: good_def sent_def constMetric_def)
  from run_shape [OF p ms_def, of ns ch] obtain k where k: "k \<le> length ms"
    "updateBtrfsStats ns kvs (Some s) ch =
       (ch @ map (constMetric ns s) (take k ms),
        if k = length ms then None else Some InvalidConstMetric)"
    "validLabels s \<and> range_order (Devices s) kvs \<longrightarrow> k = length ms"
    by blast
  have "\<forall>e\<in>set (map (constMetric ns s) (take k ms)). sent e"
    using all send unfolding set_map by (blast dest: in_set_takeD)
  with k(2,3) have "\<exists>es p. updateBtrfsStats ns kvs (Some s) ch = (ch @ es, p) \<and>
      (\<forall>e\<in>set es. sent e) \<and> (validLabels s \<and> range_order (Devices s) kvs \<longrightarrow> p = None)"
    by (intro exI [of _ "map (constMetric ns s) (take k ms)"]
        exI [of _ "if k = length ms then None else Some InvalidConstMetric"]) simp
  then show ?thesis
    unfolding sent_def B_def .
qed

theorem label_values_align_witness:
  "categoriesPresent exampleStats \<and> validLabels exampleStats \<and>
   range_order (Devices exampleStats) [(''sda'', \<lparr>Size = 100\<rparr>)] \<and>
   (\<exists>es. updateBtrfsStats ''node'' [(''sda'', \<lparr>Size = 100\<rparr>)] (Some exampleStats) [] = (es, None) \<and>
      length es = 9 \<and>
      list_all (\<lambda>e. length (labelValues e) = length (variableLabels (mdesc e))) es)"
proof -
  note c = exampleStats_present(1) and v = exampleStats_present(5) and r = exampleStats_present(6)
  from label_values_align [OF c, of "''node''" "[(''sda'', \<lparr>Size = 100\<rparr>)]" "[]"]
  obtain es p where h0:
    "updateBtrfsStats ''node'' [(''sda'', \<lparr>Size = 100\<rparr>)] (Some exampleStats) [] = ([] @ es, p) \<and>
     (\<forall>e\<in>set es.
        length (labelValues e) = length (variableLabels (mdesc e)) \<and>
        set (zip (variableLabels (mdesc e)) (labelValues e))
          \<subseteq> {(''label'', Label exampleStats), (''uuid'', UUID exampleStats)}
            \<union> ({''device''} \<times> fst ` set [(''sda'', \<lparr>Size = 100\<rparr>)]
               \<union> {''type''} \<times> set categoryNames
               \<union> {''mode''} \<times> set layoutNames)) \<and>
     (validLabels exampleStats \<and> range_order (Devices exampleStats) [(''sda'', \<lparr>Size = 100\<rparr>)]
        \<longrightarrow> p = None)"
    by (elim exE)
  from h0 [THEN conjunct2, THEN conjunct2] v r have "p = None"
    by simp
  with h0 [THEN conjunct1] have run:
    "updateBtrfsStats ''node'' [(''sda'', \<lparr>Size = 100\<rparr>)] (Some exampleStats) [] = (es, None)"
    by simp
  note len = exampleStats_length [OF run]
  have "\<forall>e\<in>set es. length (labelValues e) = length (variableLabels (mdesc e))"
  proof
    fix e assume "e \<in> set es"
    with h0 [THEN conjunct2, THEN conjunct1]
    have "length (labelValues e) = length (variableLabels (mdesc e)) \<and>
        set (zip (variableLabels (mdesc e)) (labelValues e))
          \<subseteq> {(''label'', Label exampleStats), (''uuid'', UUID exampleStats)}
            \<union> ({''device''} \<times> fst ` set [(''sda'', \<lparr>Size = 100\<rparr>)]
               \<union> {''type''} \<times> set categoryNames
               \<union> {''mode''} \<times> set layoutNames)"
      by (rule bspec)
    then show "length (labelValues e) = length (variableLabels (mdesc e))"
      by (rule conjunct1)
  qed
  then have la: "list_all (\<lambda>e. length (labelValues e) = length (variableLabels (mdesc e))) es"
    by (simp only: list_all_iff)
  show ?thesis
    apply (intro conjI c v r)
    apply (rule exI [of _ es])
    apply (simp only: run len la)
    done
qed


subsection \<open>Nil pointers\<close>



subsection \<open>Update\<close>

lemma run_returns:
  assumes "categoriesPresent s" and "validLabels s" and "range_order (Devices s) kvs"
  shows "\<exists>es. \<forall>c. updateBtrfsStats ns kvs (Some s) c = (c @ es, None)"
proof -
  from assms(1) obtain d m y where
    p: "Data (Allocation s) = Some d" "Metadata (Allocation s) = Some m"
       "System (Allocation s) = Some y"
    by (auto simp: categoriesPresent_def)
  from run_valid [OF p assms(2,3), of ns] show ?thesis
    by blast
qed

lemma updateLoop_all:
  assumes "\<forall>j<length stats. \<exists>s. stats ! j = Some s \<and> categoriesPresent s \<and> validLabels s \<and>
             range_order (Devices s) (kvss (i + j))"
  shows "\<exists>ess. length ess = length stats \<and>
           (\<forall>j<length stats. \<forall>c. updateBtrfsStats ns (kvss (i + j)) (stats ! j) c = (c @ ess ! j, None)) \<and>
           updateLoop ns kvss i stats ch = (ch @ concat ess, None)"
  using assms
proof (induction stats arbitrary: i ch)
  case Nil
  then show ?case by simp
next
  case (Cons sp stats)
  from Cons.prems [rule_format, of 0] obtain s where
    s: "sp = Some s" "categoriesPresent s" "validLabels s" "range_order (Devices s) (kvss i)"
    by auto
  from run_returns [OF s(2,3,4), of ns] obtain es where
    es: "\<forall>c. updateBtrfsStats ns (kvss i) sp c = (c @ es, None)"
    unfolding s(1) by blast
  have "\<forall>j<length stats. \<exists>s. stats ! j = Some s \<and> categoriesPresent s \<and> validLabels s \<and>
             range_order (Devices s) (kvss (Suc i + j))"
  proof (intro allI impI)
    fix j assume "j < length stats"
    with Cons.prems [rule_format, of "Suc j"]
    show "\<exists>s. stats ! j = Some s \<and> categoriesPresent s \<and> validLabels s \<and>
             range_order (Devices s) (kvss (Suc i + j))"
      by simp
  qed
  from Cons.IH [OF this, of "ch @ es"] obtain ess where
    ess: "length ess = length stats"
      "\<forall>j<length stats. \<forall>c. updateBtrfsStats ns (kvss (Suc i + j)) (stats ! j) c = (c @ ess ! j, None)"
      "updateLoop ns kvss (Suc i) stats (ch @ es) = ((ch @ es) @ concat ess, None)"
    by blast
  have "\<forall>j<length (sp # stats). \<forall>c.
          updateBtrfsStats ns (kvss (i + j)) ((sp # stats) ! j) c = (c @ (es # ess) ! j, None)"
  proof (intro allI impI)
    fix j c assume "j < length (sp # stats)"
    then show "updateBtrfsStats ns (kvss (i + j)) ((sp # stats) ! j) c = (c @ (es # ess) ! j, None)"
      using es ess(2) by (cases j) simp_all
  qed
  moreover have "updateLoop ns kvss i (sp # stats) ch = (ch @ concat (es # ess), None)"
    using es ess(3) by simp
  moreover have "length (es # ess) = length (sp # stats)"
    using ess(1) by simp
  ultimately show ?case
    by blast
qed

text \<open>
  Claim C6, as the code has it. \<open>Update\<close> returns an error exactly when the call of
  \<open>Stats\<close> fails; the error is the message \<open>failed to retrieve Btrfs stats:\<close> followed
  by the message of the failure, and nothing is sent on the channel. When \<open>Stats\<close>
  succeeds and every snapshot is non-nil, has its three category records and has a
  label, a unique id and device names that are valid UTF-8, \<open>Update\<close> runs
  \<open>updateBtrfsStats\<close> on every snapshot in the order of the slice, the channel receives
  the metrics of all of them in that order, and \<open>Update\<close> returns nil.
\<close>

theorem Update_outcome:
  "(\<forall>err. Stats (fs c) = Inl err \<longrightarrow>
      Update ns Stats kvss c ch = (ch, Returned (Some (''failed to retrieve Btrfs stats: '' @ err)))) \<and>
   (\<forall>stats. Stats (fs c) = Inr stats \<and>
        (\<forall>j<length stats. \<exists>s. stats ! j = Some s \<and> categoriesPresent s \<and> validLabels s \<and>
           range_order (Devices s) (kvss j)) \<longrightarrow>
      (\<exists>ess. length ess = length stats \<and>
         (\<forall>j<length stats. updateBtrfsStats ns (kvss j) (stats ! j) [] = (ess ! j, None)) \<and>
         Update ns Stats kvss c ch = (ch @ concat ess, Returned None))) \<and>
   ((\<exists>msg. snd (Update ns Stats kvss c ch) = Returned (Some msg)) \<longleftrightarrow> (\<exists>err. Stats (fs c) = Inl err))"
proof (intro conjI allI impI)
  fix err assume "Stats (fs c) = Inl err"
  then show "Update ns Stats kvss c ch = (ch, Returned (Some (''failed to retrieve Btrfs stats: '' @ err)))"
    by (simp add: Update_def)
next
  fix stats
  assume a: "Stats (fs c) = Inr stats \<and>
        (\<forall>j<length stats. \<exists>s. stats ! j = Some s \<and> categoriesPresent s \<and> validLabels s \<and>
           range_order (Devices s) (kvss j))"
  then have wf: "\<forall>j<length stats. \<exists>s. stats ! j = Some s \<and> categoriesPresent s \<and> validLabels s \<and>
           range_order (Devices s) (kvss (0 + j))"
    by simp
  from updateLoop_all [OF wf, of ns ch] obtain ess where
    ess: "length ess = length stats"
      "\<forall>j<length stats. \<forall>c. updateBtrfsStats ns (kvss (0 + j)) (stats ! j) c = (c @ ess ! j, None)"
      "updateLoop ns kvss 0 stats ch = (ch @ concat ess, None)"
    by blast
  from ess(2) have each: "\<forall>j<length stats. updateBtrfsStats ns (kvss j) (stats ! j) [] = (ess ! j, None)"
    by simp
  from a ess(3) have "Update ns Stats kvss c ch = (ch @ concat ess, Returned None)"
    by (simp add: Update_def)
  with ess(1) each show "\<exists>ess. length ess = length stats \<and>
         (\<forall>j<length stats. updateBtrfsStats ns (kvss j) (stats ! j) [] = (ess ! j, None)) \<and>
         Update ns Stats kvss c ch = (ch @ concat ess, Returned None)"
    by blast
next
  show "(\<exists>msg. snd (Update ns Stats kvss c ch) = Returned (Some msg)) \<longleftrightarrow> (\<exists>err. Stats (fs c) = Inl err)"
    by (cases "Stats (fs c)") (auto simp: Update_def split: prod.split option.split)
qed

theorem Update_outcome_witness:
  "Update ''node'' exampleSource exampleOrders \<lparr>fs = 1\<rparr> []
     = ([], Returned (Some ''failed to retrieve Btrfs stats: read error'')) \<and>
   exampleSource 0 = Inr [Some exampleStats, Some twoDeviceStats] \<and>
   categoriesPresent exampleStats \<and> validLabels exampleStats \<and>
   range_order (Devices exampleStats) (exampleOrders 0) \<and>
   categoriesPresent twoDeviceStats \<and> validLabels twoDeviceStats \<and>
   range_order (Devices twoDeviceStats) (exampleOrders 1) \<and>
   (\<exists>e1 e2.
      updateBtrfsStats ''node'' [(''sda'', \<lparr>Size = 100\<rparr>)] (Some exampleStats) [] = (e1, None) \<and>
      updateBtrfsStats ''node'' [(''sdb'', \<lparr>Size = 200\<rparr>), (''sda'', \<lparr>Size = 100\<rparr>)] (Some twoDeviceStats) [] = (e2, None) \<and>
      Update ''node'' exampleSource exampleOrders \<lparr>fs = 0\<rparr> [] = (e1 @ e2, Returned None))"
proof -
  have f: "exampleSource (fs \<lparr>fs = 1::nat\<rparr>) = Inl ''read error''"
    and g: "exampleSource (fs \<lparr>fs = 0::nat\<rparr>) = Inr [Some exampleStats, Some twoDeviceStats]"
    by (simp_all add: exampleSource_def)
  have o: "exampleOrders 0 = [(''sda'', \<lparr>Size = 100\<rparr>)]"
    "exampleOrders 1 = [(''sdb'', \<lparr>Size = 200\<rparr>), (''sda'', \<lparr>Size = 100\<rparr>)]"
    by (simp_all add: exampleOrders_def)
  note c1 = exampleStats_present(1) and v1 = exampleStats_present(5)
    and r1 = exampleStats_present(6) [folded o(1)]
  note c2 = twoDeviceStats_present(4) and v2 = twoDeviceStats_present(5)
    and r2 = twoDeviceStats_present(7) [folded o(2)]
  have wf: "\<forall>j<length [Some exampleStats, Some twoDeviceStats].
      \<exists>s. [Some exampleStats, Some twoDeviceStats] ! j = Some s \<and> categoriesPresent s \<and>
        validLabels s \<and> range_order (Devices s) (exampleOrders j)"
  proof (intro allI impI)
    fix j assume "j < length [Some exampleStats, Some twoDeviceStats]"
    then have "j = 0 \<or> j = 1"
      by auto
    then show "\<exists>s. [Some exampleStats, Some twoDeviceStats] ! j = Some s \<and> categoriesPresent s \<and>
        validLabels s \<and> range_order (Devices s) (exampleOrders j)"
      using c1 v1 r1 c2 v2 r2 by auto
  qed
  note w1 = Update_outcome [of exampleSource "\<lparr>fs = 1\<rparr>" "''node''" exampleOrders "[]"]
  note w0 = Update_outcome [of exampleSource "\<lparr>fs = 0\<rparr>" "''node''" exampleOrders "[]"]
  from w1 [THEN conjunct1, rule_format, OF f]
  have e: "Update ''node'' exampleSource exampleOrders \<lparr>fs = 1\<rparr> []
     = ([], Returned (Some (''failed to retrieve Btrfs stats: '' @ ''read error'')))" .
  from w0 [THEN conjunct2, THEN conjunct1, rule_format, OF conjI [OF g wf]]
  obtain ess where ess: "length ess = length [Some exampleStats, Some twoDeviceStats]"
    "\<forall>j<length [Some exampleStats, Some twoDeviceStats].
        updateBtrfsStats ''node'' (exampleOrders j) ([Some exampleStats, Some twoDeviceStats] ! j) [] = (ess ! j, None)"
    "Update ''node'' exampleSource exampleOrders \<lparr>fs = 0\<rparr> [] = ([] @ concat ess, Returned None)"
    by (elim exE conjE)
  from ess(1) obtain e1 e2 where l: "ess = [e1, e2]"
    by (cases ess; cases "tl ess") auto
  from ess(2) have "updateBtrfsStats ''node'' (exampleOrders 0) (Some exampleStats) [] = (e1, None)"
    "updateBtrfsStats ''node'' (exampleOrders 1) (Some twoDeviceStats) [] = (e2, None)"
    unfolding l by (auto simp: less_Suc_eq)
  then have r: "updateBtrfsStats ''node'' [(''sda'', \<lparr>Size = 100\<rparr>)] (Some exampleStats) [] = (e1, None)"
    "updateBtrfsStats ''node'' [(''sdb'', \<lparr>Size = 200\<rparr>), (''sda'', \<lparr>Size = 100\<rparr>)] (Some twoDeviceStats) [] = (e2, None)"
    by (simp_all only: o)
  from ess(3) have u: "Update ''node'' exampleSource exampleOrders \<lparr>fs = 0\<rparr> [] = (e1 @ e2, Returned None)"
    unfolding l by simp
  have g': "exampleSource 0 = Inr [Some exampleStats, Some twoDeviceStats]"
    by (simp add: exampleSource_def)
  have e': "Update ''node'' exampleSource exampleOrders \<lparr>fs = 1\<rparr> []
     = ([], Returned (Some ''failed to retrieve Btrfs stats: read error''))"
    using e by simp
  have "\<exists>e1 e2.
      updateBtrfsStats ''node'' [(''sda'', \<lparr>Size = 100\<rparr>)] (Some exampleStats) [] = (e1, None) \<and>
      updateBtrfsStats ''node'' [(''sdb'', \<lparr>Size = 200\<rparr>), (''sda'', \<lparr>Size = 100\<rparr>)] (Some twoDeviceStats) [] = (e2, None) \<and>
      Update ''node'' exampleSource exampleOrders \<lparr>fs = 0\<rparr> [] = (e1 @ e2, Returned None)"
    using r u by (intro exI [of _ e1] exI [of _ e2] conjI)
  with e' g' c1 v1 r1 c2 v2 r2 show ?thesis
    by (intro conjI)
qed

text \<open>
  When \<open>Stats\<close> succeeds with a snapshot whose label is not valid UTF-8, \<open>Update\<close> neither
  returns nil nor an error: it panics, with the nine metrics of the snapshot before it
  on the channel.
\<close>

theorem Update_outcome_counterexample:
  "badLabelSource (fs \<lparr>fs = 0::nat\<rparr>) = Inr [Some exampleStats, Some badLabelStats] \<and>
   categoriesPresent exampleStats \<and> categoriesPresent badLabelStats \<and>
   range_order (Devices exampleStats) [(''sda'', \<lparr>Size = 100\<rparr>)] \<and>
   range_order (Devices badLabelStats) [(''sda'', \<lparr>Size = 100\<rparr>)] \<and>
   snd (Update ''node'' badLabelSource (\<lambda>i. [(''sda'', \<lparr>Size = 100\<rparr>)]) \<lparr>fs = 0::nat\<rparr> [])
     = Panicked InvalidConstMetric \<and>
   length (fst (Update ''node'' badLabelSource (\<lambda>i. [(''sda'', \<lparr>Size = 100\<rparr>)]) \<lparr>fs = 0::nat\<rparr> [])) = 9"
proof -
  have u: "Update ''node'' badLabelSource (\<lambda>i. [(''sda'', \<lparr>Size = 100\<rparr>)]) \<lparr>fs = 0::nat\<rparr> [] =
      (fst (updateBtrfsStats ''node'' [(''sda'', \<lparr>Size = 100\<rparr>)] (Some exampleStats) []),
       Panicked InvalidConstMetric)"
    by (simp add: Update_def badLabelSource_def exampleStats_run badLabelStats_run)
  have "length (fst (updateBtrfsStats ''node'' [(''sda'', \<lparr>Size = 100\<rparr>)] (Some exampleStats) [])) = 9"
    by (rule exampleStats_length [of "''node''" _ None]) (simp add: exampleStats_run)
  with u exampleStats_present(1,6) badLabelStats_present(1,2) show ?thesis
    by (simp add: badLabelSource_def)
qed

subsection \<open>NewBtrfsCollector\<close>

text \<open>
  Claim C8. \<open>NewBtrfsCollector\<close> returns an error exactly when \<open>btrfs.NewFS\<close> fails on
  the configured path; the error is the message \<open>failed to open sysfs:\<close> followed by
  the message of the failure. Otherwise it returns a collector that holds the handle
  and no error.
\<close>

theorem NewBtrfsCollector_result:
  "((\<exists>msg. NewBtrfsCollector NewFS sysPath = Inl msg) \<longleftrightarrow> (\<exists>err. NewFS sysPath = Inl err)) \<and>
   (\<forall>err. NewFS sysPath = Inl err \<longrightarrow>
      NewBtrfsCollector NewFS sysPath = Inl (''failed to open sysfs: '' @ err)) \<and>
   (\<forall>h. NewFS sysPath = Inr h \<longrightarrow> NewBtrfsCollector NewFS sysPath = Inr \<lparr>fs = h\<rparr>)"
  by (cases "NewFS sysPath") (simp_all add: NewBtrfsCollector_def)

theorem NewBtrfsCollector_result_witness:
  "exampleNewFS ''/proc'' = Inl ''no such file or directory'' \<and>
   NewBtrfsCollector exampleNewFS ''/proc'' = Inl ''failed to open sysfs: no such file or directory'' \<and>
   exampleNewFS ''/sys'' = Inr 0 \<and>
   NewBtrfsCollector exampleNewFS ''/sys'' = Inr \<lparr>fs = 0\<rparr>"
proof -
  have a: "exampleNewFS ''/proc'' = Inl ''no such file or directory''"
    and b: "exampleNewFS ''/sys'' = Inr 0"
    by (simp_all add: exampleNewFS_def)
  from a b NewBtrfsCollector_result [of exampleNewFS "''/proc''"]
    NewBtrfsCollector_result [of exampleNewFS "''/sys''"]
  show ?thesis
    by simp
qed

subsection \<open>Integer statistics as float64\<close>



end
